theory Spec2Isabelle
  imports Main
begin

section \<open>Data model\<close>

text \<open>
  The repository holds three chat servers. \<^verbatim>\<open>back/server.js\<close> contains two of them one
  after the other: the first stores a durable \<^verbatim>\<open>members\<close> array in every room (suffix
  \<open>_p\<close> below), the second stores only an \<^verbatim>\<open>owner\<close> and leaves membership to the
  socket rooms (suffix \<open>_e\<close>). \<^verbatim>\<open>server/src/socket.js\<close> is a third, minimal
  socket handler (suffix \<open>_m\<close>).

  A stored ObjectId is modelled by its string form (24 lower-case hex digits), the clock
  by a natural number. A string that a client sends where an ObjectId is expected is a
  plain \<open>string\<close>: Mongoose casts it, and the cast is the parameter \<open>cast\<close> of the
  functions below (\<open>None\<close> where it throws). The \<^verbatim>\<open>userId\<close> of a verified token was signed
  by the login route from \<^verbatim>\<open>user._id\<close>, so it is an id in its stored form.
\<close>

type_synonym oid = string
type_synonym sid = nat

text \<open>
  What a client can send as the \<^verbatim>\<open>message\<close> of a \<^verbatim>\<open>chatMessage\<close>: a string; a value that is
  not a string but that the String cast of the schema turns into a text (a number, a
  boolean), given with that text; or anything else (\<^verbatim>\<open>undefined\<close>, \<^verbatim>\<open>null\<close>, an array, a plain
  object), for which validation fails.
\<close>

datatype js_value = JString string | JCastable string | JOther

text \<open>The text Mongoose stores for the path \<^verbatim>\<open>text: { type: String, required: true }\<close>.\<close>

definition cast_text :: "js_value \<Rightarrow> string option" where
  "cast_text v = (case v of JString s \<Rightarrow> Some s | JCastable s \<Rightarrow> Some s | JOther \<Rightarrow> None)"

record user =
  u_id :: oid
  u_username :: string
  u_email :: string
  u_password :: string

text \<open>\<^verbatim>\<open>roomSchema\<close> of the first server: \<^verbatim>\<open>{ name, members: [ObjectId] }\<close>.\<close>

record room_p =
  rp_id :: oid
  rp_name :: string
  members :: "oid list"

text \<open>\<^verbatim>\<open>roomSchema\<close> of the second server: \<^verbatim>\<open>{ name, owner }\<close>.\<close>

record room_e =
  re_id :: oid
  re_name :: string
  owner :: oid

text \<open>\<^verbatim>\<open>messageSchema\<close> of both servers in \<^verbatim>\<open>back/server.js\<close>. The generated
  \<^verbatim>\<open>_id\<close> of a message is read by no handler and is left out.\<close>

record message =
  m_room :: oid
  m_user :: oid
  m_text :: string
  m_createdAt :: nat

text \<open>The payload signed at login, \<^verbatim>\<open>jwt.sign({ userId: user._id, username: user.username }, ...)\<close>,
  which the middlewares store as \<^verbatim>\<open>req.user\<close> and \<^verbatim>\<open>socket.user\<close>.\<close>

record jwt_payload =
  userId :: oid
  jwt_username :: string

record socket =
  socket_id :: sid
  socket_user :: jwt_payload

text \<open>The object broadcast as \<^verbatim>\<open>'chatMessage'\<close>:
  \<^verbatim>\<open>{ user: { _id, username }, text, createdAt }\<close>.\<close>

record chat_event =
  ev_user_id :: oid
  ev_username :: string
  ev_text :: string
  ev_createdAt :: nat

text \<open>What \<^verbatim>\<open>transporter.sendMail\<close> is called with. Subject and body are fixed templates
  over the sender's username, the room and the message; the record keeps those arguments.\<close>

record mail =
  mail_to :: string
  mail_sender :: string
  mail_room :: string
  mail_message :: string

datatype ack = AckError string | AckSuccess string

text \<open>
  Everything a handler does to the outside world, in the order in which it happens:
  a resolved \<^verbatim>\<open>newMessage.save()\<close>, a resolved or rejected \<^verbatim>\<open>sendMail\<close>, an
  \<^verbatim>\<open>io.to(room).emit('chatMessage', ...)\<close>, a call of the client's acknowledgement
  callback, and a line on the server's console, recorded by its message (a value logged
  after the message, an error object or a socket id, is left out).
\<close>

datatype effect =
    Saved message
  | MailSent mail
  | MailFailed mail
  | Emit string chat_event
  | Callback sid ack
  | ConsoleLog string
  | ConsoleError string

text \<open>
  The server's world: the three Mongo collections, the socket rooms of socket.io
  (pairs of a socket id and the room key it joined) and the trace of effects so far.
\<close>

record 'r server =
  users :: "user list"
  rooms :: "'r list"
  messages :: "message list"
  joined :: "(sid \<times> string) list"
  trace :: "effect list"

text \<open>
  Every awaited I/O call can reject. Which ones do is an input of the model: a handler
  is run under a record saying which of its awaited calls throw; \<open>findMessages_throws\<close>
  stands for the whole query \<^verbatim>\<open>Message.find(...).populate(...)\<close>.
\<close>

record faults =
  findRoom_throws :: bool
  saveRoom_throws :: bool
  deleteRoom_throws :: bool
  saveMessage_throws :: bool
  findMessages_throws :: bool
  findUser_throws :: "string \<Rightarrow> bool"
  sendMail_throws :: "string \<Rightarrow> bool"

definition no_faults :: faults where
  "no_faults = \<lparr> findRoom_throws = False, saveRoom_throws = False, deleteRoom_throws = False,
     saveMessage_throws = False, findMessages_throws = False,
     findUser_throws = (\<lambda>_. False), sendMail_throws = (\<lambda>_. False) \<rparr>"

definition emit_effect :: "effect \<Rightarrow> 'r server \<Rightarrow> 'r server" where
  "emit_effect e st = st\<lparr> trace := trace st @ [e] \<rparr>"

section \<open>Mention patterns\<close>

text \<open>\<^verbatim>\<open>\w\<close> of a JavaScript regular expression without the \<^verbatim>\<open>u\<close> flag: \<^verbatim>\<open>[A-Za-z0-9_]\<close>.\<close>

definition is_alpha :: "char \<Rightarrow> bool" where
  "is_alpha c = (let n = (of_char c :: nat) in (65 \<le> n \<and> n \<le> 90) \<or> (97 \<le> n \<and> n \<le> 122))"

definition is_word :: "char \<Rightarrow> bool" where
  "is_word c = (let n = (of_char c :: nat) in is_alpha c \<or> (48 \<le> n \<and> n \<le> 57) \<or> n = 95)"

text \<open>The class \<^verbatim>\<open>[\w.-]\<close>.\<close>

definition is_addr :: "char \<Rightarrow> bool" where
  "is_addr c = (is_word c \<or> c = CHR ''.'' \<or> c = CHR ''-'')"

text \<open>
  \<^verbatim>\<open>message.match(/@(\w+)/g)\<close>: all non-overlapping matches, left to right, each an
  \<^verbatim>\<open>@\<close> with the longest run of word characters after it. JavaScript returns
  \<^verbatim>\<open>null\<close> where the list is empty, and the handlers skip the loop then.
\<close>

function match_username :: "string \<Rightarrow> string list" where
  "match_username [] = []"
| "match_username (c # cs) =
     (if c = CHR ''@'' \<and> takeWhile is_word cs \<noteq> []
      then (c # takeWhile is_word cs) # match_username (dropWhile is_word cs)
      else match_username cs)"
  by pat_completeness auto
termination
  by (relation "measure length") (auto simp: less_Suc_eq_le length_dropWhile_le)

text \<open>
  The domain part \<^verbatim>\<open>[\w.-]+\.[A-Za-z]{2,}\<close> inside a maximal run \<open>r\<close> of \<^verbatim>\<open>[\w.-]\<close>
  characters: the greedy \<^verbatim>\<open>[\w.-]+\<close> first takes all of \<open>r\<close> and gives characters back
  one at a time until a dot followed by at least two letters comes next; the letters
  are then taken greedily. \<open>domain_split k r\<close> tries the prefixes of length \<open>k\<close>, \<open>k - 1\<close>,
  ..., 1 and returns the length of the domain part matched.
\<close>

fun domain_split :: "nat \<Rightarrow> string \<Rightarrow> nat option" where
  "domain_split 0 r = None"
| "domain_split (Suc k) r =
     (if Suc k < length r \<and> r ! Suc k = CHR ''.''
         \<and> 2 \<le> length (takeWhile is_alpha (drop (Suc (Suc k)) r))
      then Some (Suc (Suc k) + length (takeWhile is_alpha (drop (Suc (Suc k)) r)))
      else domain_split k r)"

text \<open>
  \<^verbatim>\<open>/@([\w.-]+@[\w.-]+\.[A-Za-z]{2,})/\<close> tried right after an \<^verbatim>\<open>@\<close>: the number of
  characters after that \<^verbatim>\<open>@\<close> which the match covers, if there is a match.
\<close>

definition email_at :: "string \<Rightarrow> nat option" where
  "email_at cs =
     (let local = takeWhile is_addr cs in
      if local = [] then None
      else (case dropWhile is_addr cs of
              [] \<Rightarrow> None
            | d # r2 \<Rightarrow>
                if d \<noteq> CHR ''@'' then None
                else (let r = takeWhile is_addr r2 in
                      case domain_split (length r - 1) r of
                        None \<Rightarrow> None
                      | Some n \<Rightarrow> Some (length local + 1 + n))))"

text \<open>\<^verbatim>\<open>message.match(/@([\w.-]+@[\w.-]+\.[A-Za-z]{2,})/g)\<close>.\<close>

function match_email :: "string \<Rightarrow> string list" where
  "match_email [] = []"
| "match_email (c # cs) =
     (if c = CHR ''@'' then
        (case email_at cs of
           None \<Rightarrow> match_email cs
         | Some n \<Rightarrow> (c # take n cs) # match_email (drop n cs))
      else match_email cs)"
  by pat_completeness auto
termination
  by (relation "measure length") auto

section \<open>Authentication\<close>

text \<open>\<^verbatim>\<open>s.split(' ')\<close>.\<close>

fun split_sp :: "string \<Rightarrow> string list" where
  "split_sp [] = [[]]"
| "split_sp (c # cs) =
     (if c = CHR '' '' then [] # split_sp cs
      else (case split_sp cs of [] \<Rightarrow> [[c]] | p # ps \<Rightarrow> (c # p) # ps))"

datatype 'r response =
    Json nat string
  | JsonRoom nat string 'r
  | JsonList nat "(message \<times> (oid \<times> string) option) list"

text \<open>
  \<^verbatim>\<open>authMiddleware(req, res, next)\<close>, the same in both servers of \<^verbatim>\<open>back/server.js\<close>.
  \<^verbatim>\<open>jwt.verify(token, JWT_SECRET)\<close> is library code: it is the parameter \<open>verify\<close>,
  \<open>None\<close> where it throws. \<open>Inl\<close> is the 401 response, \<open>Inr\<close> is \<^verbatim>\<open>req.user\<close>.
\<close>

definition authMiddleware ::
  "(string \<Rightarrow> jwt_payload option) \<Rightarrow> string option \<Rightarrow> 'r response + jwt_payload" where
  "authMiddleware verify authorization =
     (case authorization of
        None \<Rightarrow> Inl (Json 401 ''No token provided'')
      | Some h \<Rightarrow>
          (case split_sp h of
             _ # token # _ \<Rightarrow>
               if token = [] then Inl (Json 401 ''No token provided'')
               else (case verify token of
                       None \<Rightarrow> Inl (Json 401 ''Invalid token'')
                     | Some decoded \<Rightarrow> Inr decoded)
           | _ \<Rightarrow> Inl (Json 401 ''No token provided'')))"

text \<open>
  \<^verbatim>\<open>io.use((socket, next) => ...)\<close>, the same in both servers of \<^verbatim>\<open>back/server.js\<close>:
  \<open>Inl\<close> is the error passed to \<^verbatim>\<open>next\<close>, with which socket.io refuses the connection;
  \<open>Inr\<close> is \<^verbatim>\<open>socket.user\<close>. The argument is \<^verbatim>\<open>socket.handshake.auth?.token\<close>.
\<close>

definition io_use :: "(string \<Rightarrow> jwt_payload option) \<Rightarrow> string option \<Rightarrow> string + jwt_payload" where
  "io_use verify token =
     (case token of
        None \<Rightarrow> Inl ''No token provided''
      | Some t \<Rightarrow>
          if t = [] then Inl ''No token provided''
          else (case verify t of
                  None \<Rightarrow> Inl ''Invalid token''
                | Some decoded \<Rightarrow> Inr decoded))"

text \<open>
  A connection attempt ends refused, with the middleware's error sent to the client as
  \<^verbatim>\<open>connect_error\<close>, or admitted: only then does \<^verbatim>\<open>io.on('connection', ...)\<close> run and
  register the handlers of the socket.
\<close>

datatype connection = Refused string | Admitted socket

definition handshake :: "(string \<Rightarrow> jwt_payload option) \<Rightarrow> sid \<Rightarrow> string option \<Rightarrow> connection" where
  "handshake verify i token =
     (case io_use verify token of
        Inl err \<Rightarrow> Refused err
      | Inr decoded \<Rightarrow> Admitted \<lparr> socket_id = i, socket_user = decoded \<rparr>)"

section \<open>Shared pieces of the chat handlers\<close>

text \<open>Whether a handler ran to its end or threw into its \<^verbatim>\<open>catch\<close>.\<close>

datatype completion = Normal | Threw

definition reply :: "bool \<Rightarrow> socket \<Rightarrow> ack \<Rightarrow> 'r server \<Rightarrow> 'r server" where
  "reply callback sock a st = (if callback then emit_effect (Callback (socket_id sock) a) st else st)"

text \<open>
  \<^verbatim>\<open>try { await transporter.sendMail(...); console.log(...) } catch (emailErr) { console.error(...) }\<close>
\<close>

definition try_sendMail :: "faults \<Rightarrow> mail \<Rightarrow> effect list" where
  "try_sendMail f m =
     (if sendMail_throws f (mail_to m)
      then [MailFailed m, ConsoleError (''Failed to send mention email to '' @ mail_to m @ '':'')]
      else [MailSent m, ConsoleLog (''Mention email sent to '' @ mail_to m)])"

text \<open>Sequencing: the effects \<open>es\<close> happen, then what the rest of the loop does.\<close>

definition and_then :: "effect list \<Rightarrow> effect list \<times> completion \<Rightarrow> effect list \<times> completion" where
  "and_then es r = (es @ fst r, snd r)"

definition emit_effects :: "effect list \<Rightarrow> 'r server \<Rightarrow> 'r server" where
  "emit_effects es st = st\<lparr> trace := trace st @ es \<rparr>"

text \<open>
  \<^verbatim>\<open>new Message({ room, user, text: message })\<close>: the document, or \<open>None\<close> when the text
  cannot be cast; \<^verbatim>\<open>save\<close> then rejects with the validation error.
\<close>

definition new_message :: "oid \<Rightarrow> oid \<Rightarrow> js_value \<Rightarrow> nat \<Rightarrow> message option" where
  "new_message room_id user_id msg now =
     map_option (\<lambda>t. \<lparr> m_room = room_id, m_user = user_id, m_text = t, m_createdAt = now \<rparr>)
       (cast_text msg)"

text \<open>
  \<^verbatim>\<open>await newMessage.save()\<close> of a document whose paths were cast. The schema declares
  \<^verbatim>\<open>text: { type: String, required: true }\<close>, so validation rejects the empty text.
\<close>

definition save_message :: "faults \<Rightarrow> message \<Rightarrow> 'r server \<Rightarrow> 'r server \<times> completion" where
  "save_message f m st =
     (if saveMessage_throws f \<or> m_text m = [] then (st, Threw)
      else (emit_effect (Saved m) (st\<lparr> messages := messages st @ [m] \<rparr>), Normal))"

text \<open>\<^verbatim>\<open>io.to(key).emit('chatMessage', { user: { _id: socket.user.userId, username:
  socket.user.username }, text: message, createdAt: newMessage.createdAt })\<close>\<close>

definition event_of :: "socket \<Rightarrow> message \<Rightarrow> chat_event" where
  "event_of sock m =
     \<lparr> ev_user_id = userId (socket_user sock), ev_username = jwt_username (socket_user sock),
       ev_text = m_text m, ev_createdAt = m_createdAt m \<rparr>"

definition broadcast :: "string \<Rightarrow> socket \<Rightarrow> message \<Rightarrow> 'r server \<Rightarrow> 'r server" where
  "broadcast key sock m st = emit_effect (Emit key (event_of sock m)) st"

text \<open>The \<^verbatim>\<open>catch (err) { console.error('Error sending message:', err) }\<close> around a handler body.\<close>

definition catch_log :: "'r server \<times> completion \<Rightarrow> 'r server" where
  "catch_log r =
     (case r of
        (st, Normal) \<Rightarrow> st
      | (st, Threw) \<Rightarrow> emit_effect (ConsoleError ''Error sending message:'') st)"

section \<open>The first server: durable member lists\<close>

text \<open>
  \<^verbatim>\<open>Room.findById(roomId)\<close>: the argument is cast to an ObjectId first; the query throws
  when the cast does, and otherwise looks for the room with the cast id.
\<close>

datatype 'a found = CastError | NotFound | Found 'a

definition findById :: "(string \<Rightarrow> oid option) \<Rightarrow> room_p list \<Rightarrow> string \<Rightarrow> room_p found" where
  "findById cast rs i =
     (case cast i of
        None \<Rightarrow> CastError
      | Some c \<Rightarrow> (case find (\<lambda>r. rp_id r = c) rs of None \<Rightarrow> NotFound | Some room \<Rightarrow> Found room))"

definition findOne_name_p :: "room_p list \<Rightarrow> string \<Rightarrow> room_p option" where
  "findOne_name_p rs n = find (\<lambda>r. rp_name r = n) rs"

definition findOne_email :: "user list \<Rightarrow> string \<Rightarrow> user option" where
  "findOne_email us e = find (\<lambda>u. u_email u = e) us"

text \<open>\<^verbatim>\<open>socket.on('joinRoom', async (roomId, callback) => ...)\<close>; \<open>callback\<close> says
  whether the client passed one. \<^verbatim>\<open>socket.join(roomId)\<close> takes the string as it was sent.\<close>

definition joinRoom_p ::
  "(string \<Rightarrow> oid option) \<Rightarrow> faults \<Rightarrow> socket \<Rightarrow> string \<Rightarrow> bool \<Rightarrow> room_p server \<Rightarrow> room_p server" where
  "joinRoom_p cast f sock roomId callback st =
     (if findRoom_throws f
      then reply callback sock (AckError ''Failed to join room'')
             (emit_effect (ConsoleError ''Failed to join room:'') st)
      else (case findById cast (rooms st) roomId of
              CastError \<Rightarrow> reply callback sock (AckError ''Failed to join room'')
                             (emit_effect (ConsoleError ''Failed to join room:'') st)
            | NotFound \<Rightarrow> reply callback sock (AckError ''Room not found'') st
            | Found room \<Rightarrow>
                if userId (socket_user sock) \<notin> set (members room)
                then reply callback sock (AckError ''You are not a member of this room'') st
                else reply callback sock (AckSuccess ''Joined the room'')
                       (st\<lparr> joined := List.insert (socket_id sock, roomId) (joined st) \<rparr>)))"

text \<open>
  The loop \<^verbatim>\<open>for (let mention of mentions)\<close> of the first server, over the \<^verbatim>\<open>User\<close>
  collection \<open>us\<close>: the effects it has, in order, and how it ends. \<^verbatim>\<open>User.findOne\<close> is
  awaited outside the inner \<^verbatim>\<open>try\<close>, so its rejection leaves the loop and the handler.
\<close>

definition mail_p :: "socket \<Rightarrow> room_p \<Rightarrow> string \<Rightarrow> string \<Rightarrow> mail" where
  "mail_p sock room msg mentionedEmail =
     \<lparr> mail_to = mentionedEmail, mail_sender = jwt_username (socket_user sock),
       mail_room = rp_name room, mail_message = msg \<rparr>"

fun mention_loop_p ::
  "faults \<Rightarrow> user list \<Rightarrow> socket \<Rightarrow> room_p \<Rightarrow> string \<Rightarrow> string list \<Rightarrow> effect list \<times> completion" where
  "mention_loop_p f us sock room msg [] = ([], Normal)"
| "mention_loop_p f us sock room msg (mention # rest) =
     (let mentionedEmail = tl mention in
      if findUser_throws f mentionedEmail then ([], Threw)
      else (case findOne_email us mentionedEmail of
              None \<Rightarrow> mention_loop_p f us sock room msg rest
            | Some userMentioned \<Rightarrow>
                if u_id userMentioned \<notin> set (members room)
                then and_then (try_sendMail f (mail_p sock room msg mentionedEmail))
                       (mention_loop_p f us sock room msg rest)
                else mention_loop_p f us sock room msg rest))"

text \<open>
  \<^verbatim>\<open>socket.on('chatMessage', async (data) => ...)\<close> of the first server, with
  \<^verbatim>\<open>data = { roomId, message }\<close>; \<open>now\<close> is the \<^verbatim>\<open>Date.now\<close> default of \<^verbatim>\<open>createdAt\<close>.
  The stored \<^verbatim>\<open>room\<close> is the cast of \<^verbatim>\<open>roomId\<close>, which is the id of the room that
  \<^verbatim>\<open>findById\<close> found; the event is emitted to \<^verbatim>\<open>roomId\<close> as it was sent. After the save,
  \<^verbatim>\<open>message.match(...)\<close> is a method of strings only: on any other value it throws a
  \<^verbatim>\<open>TypeError\<close> into the \<^verbatim>\<open>catch\<close>.
\<close>

definition chatMessage_body_p ::
  "(string \<Rightarrow> oid option) \<Rightarrow> faults \<Rightarrow> nat \<Rightarrow> socket \<Rightarrow> string \<Rightarrow> js_value \<Rightarrow> room_p server
     \<Rightarrow> room_p server \<times> completion" where
  "chatMessage_body_p cast f now sock roomId msg st =
     (if findRoom_throws f then (st, Threw)
      else (case findById cast (rooms st) roomId of
              CastError \<Rightarrow> (st, Threw)
            | NotFound \<Rightarrow> (st, Normal)
            | Found room \<Rightarrow>
                if userId (socket_user sock) \<notin> set (members room) then (st, Normal)
                else (case new_message (rp_id room) (userId (socket_user sock)) msg now of
                        None \<Rightarrow> (st, Threw)
                      | Some newMessage \<Rightarrow>
                          (case save_message f newMessage st of
                             (st1, Threw) \<Rightarrow> (st1, Threw)
                           | (st1, Normal) \<Rightarrow>
                               (case msg of
                                  JString s \<Rightarrow>
                                    (case mention_loop_p f (users st1) sock room s (match_email s) of
                                       (es, Threw) \<Rightarrow> (emit_effects es st1, Threw)
                                     | (es, Normal) \<Rightarrow>
                                         (broadcast roomId sock newMessage (emit_effects es st1),
                                          Normal))
                                | _ \<Rightarrow> (st1, Threw))))))"

definition chatMessage_p ::
  "(string \<Rightarrow> oid option) \<Rightarrow> faults \<Rightarrow> nat \<Rightarrow> socket \<Rightarrow> string \<Rightarrow> js_value \<Rightarrow> room_p server
     \<Rightarrow> room_p server" where
  "chatMessage_p cast f now sock roomId msg st =
     catch_log (chatMessage_body_p cast f now sock roomId msg st)"

text \<open>
  \<^verbatim>\<open>POST /rooms\<close> behind \<^verbatim>\<open>authMiddleware\<close>. \<open>new_id\<close> is the \<^verbatim>\<open>_id\<close> Mongoose generates
  for the new document; an \<^verbatim>\<open>_id\<close> already in the collection makes \<^verbatim>\<open>save\<close> reject.
\<close>

definition create_room_p ::
  "faults \<Rightarrow> oid \<Rightarrow> jwt_payload \<Rightarrow> string option \<Rightarrow> room_p server \<Rightarrow> room_p response \<times> room_p server" where
  "create_room_p f new_id req_user name st =
     (case name of
        None \<Rightarrow> (Json 400 ''Room name is required'', st)
      | Some n \<Rightarrow>
          if n = [] then (Json 400 ''Room name is required'', st)
          else if findRoom_throws f then (Json 500 ''Server error'', st)
          else (case findOne_name_p (rooms st) n of
                  Some existingRoom \<Rightarrow> (Json 400 ''Room name already exists'', st)
                | None \<Rightarrow>
                    (let newRoom = \<lparr> rp_id = new_id, rp_name = n, members = [userId req_user] \<rparr> in
                     if saveRoom_throws f \<or> new_id \<in> rp_id ` set (rooms st)
                     then (Json 500 ''Server error'', st)
                     else (JsonRoom 201 ''Room created'' newRoom,
                           st\<lparr> rooms := rooms st @ [newRoom] \<rparr>))))"

text \<open>\<^verbatim>\<open>room.save()\<close> of a changed room: the stored document with the same \<^verbatim>\<open>_id\<close> is replaced.\<close>

definition update_room_p :: "room_p \<Rightarrow> room_p list \<Rightarrow> room_p list" where
  "update_room_p r rs = map (\<lambda>x. if rp_id x = rp_id r then r else x) rs"

text \<open>\<^verbatim>\<open>POST /rooms/:roomId/join\<close> behind \<^verbatim>\<open>authMiddleware\<close>.\<close>

definition join_room_p ::
  "(string \<Rightarrow> oid option) \<Rightarrow> faults \<Rightarrow> jwt_payload \<Rightarrow> string \<Rightarrow> room_p server
     \<Rightarrow> room_p response \<times> room_p server" where
  "join_room_p cast f req_user roomId st =
     (if findRoom_throws f then (Json 500 ''Server error'', st)
      else (case findById cast (rooms st) roomId of
              CastError \<Rightarrow> (Json 500 ''Server error'', st)
            | NotFound \<Rightarrow> (Json 404 ''Room not found'', st)
            | Found room \<Rightarrow>
                if userId req_user \<in> set (members room)
                then (Json 400 ''Already in the room'', st)
                else (let room' = room\<lparr> members := members room @ [userId req_user] \<rparr> in
                      if saveRoom_throws f then (Json 500 ''Server error'', st)
                      else (JsonRoom 200 ''Joined room successfully'' room',
                            st\<lparr> rooms := update_room_p room' (rooms st) \<rparr>))))"

text \<open>\<^verbatim>\<open>DELETE /rooms/:roomId\<close> behind \<^verbatim>\<open>authMiddleware\<close>. \<^verbatim>\<open>Room.findByIdAndDelete(roomId)\<close>
  casts \<^verbatim>\<open>roomId\<close> as \<^verbatim>\<open>findById\<close> did and removes the document with that id.\<close>

definition delete_room_p ::
  "(string \<Rightarrow> oid option) \<Rightarrow> faults \<Rightarrow> jwt_payload \<Rightarrow> string \<Rightarrow> room_p server
     \<Rightarrow> room_p response \<times> room_p server" where
  "delete_room_p cast f req_user roomId st =
     (if findRoom_throws f then (Json 500 ''Server error'', st)
      else (case findById cast (rooms st) roomId of
              CastError \<Rightarrow> (Json 500 ''Server error'', st)
            | NotFound \<Rightarrow> (Json 404 ''Room not found'', st)
            | Found room \<Rightarrow>
                if userId req_user \<notin> set (members room)
                then (Json 403 ''You are not a member of this room'', st)
                else if deleteRoom_throws f then (Json 500 ''Server error'', st)
                else (Json 200 ''Room deleted'',
                      st\<lparr> rooms := filter (\<lambda>r. rp_id r \<noteq> rp_id room) (rooms st) \<rparr>)))"

section \<open>The second server: owner-only rooms, ephemeral membership\<close>

definition findOne_name_e :: "room_e list \<Rightarrow> string \<Rightarrow> room_e option" where
  "findOne_name_e rs n = find (\<lambda>r. re_name r = n) rs"

definition findOne_username :: "user list \<Rightarrow> string \<Rightarrow> user option" where
  "findOne_username us n = find (\<lambda>u. u_username u = n) us"

text \<open>\<^verbatim>\<open>socket.on('joinRoom', (roomName, callback) => ...)\<close>: no lookup, no check.\<close>

definition joinRoom_e :: "socket \<Rightarrow> string \<Rightarrow> bool \<Rightarrow> room_e server \<Rightarrow> room_e server" where
  "joinRoom_e sock roomName callback st =
     reply callback sock
       (AckSuccess (''Joined the room (ephemeral) '' @ [CHR 0x27] @ roomName @ [CHR 0x27]))
       (st\<lparr> joined := List.insert (socket_id sock, roomName) (joined st) \<rparr>)"

text \<open>The loop \<^verbatim>\<open>for (const mention of mentions)\<close> of the second server.\<close>

definition mail_e :: "socket \<Rightarrow> string \<Rightarrow> string \<Rightarrow> user \<Rightarrow> mail" where
  "mail_e sock roomName msg userMentioned =
     \<lparr> mail_to = u_email userMentioned, mail_sender = jwt_username (socket_user sock),
       mail_room = roomName, mail_message = msg \<rparr>"

fun mention_loop_e ::
  "faults \<Rightarrow> user list \<Rightarrow> socket \<Rightarrow> string \<Rightarrow> string \<Rightarrow> string list \<Rightarrow> effect list \<times> completion" where
  "mention_loop_e f us sock roomName msg [] = ([], Normal)"
| "mention_loop_e f us sock roomName msg (mention # rest) =
     (let mentionedUsername = tl mention in
      if findUser_throws f mentionedUsername then ([], Threw)
      else (case findOne_username us mentionedUsername of
              None \<Rightarrow> mention_loop_e f us sock roomName msg rest
            | Some userMentioned \<Rightarrow>
                and_then (try_sendMail f (mail_e sock roomName msg userMentioned))
                  (mention_loop_e f us sock roomName msg rest)))"

text \<open>
  \<^verbatim>\<open>socket.on('chatMessage', async (data) => ...)\<close> of the second server, with
  \<^verbatim>\<open>data = { roomName, message }\<close>. The check of \<^verbatim>\<open>socket.rooms.has(roomName)\<close> is
  commented out in the source. As in the first server, \<^verbatim>\<open>message.match(...)\<close> throws on a
  value that is not a string, after the save.
\<close>

definition chatMessage_body_e ::
  "faults \<Rightarrow> nat \<Rightarrow> socket \<Rightarrow> string \<Rightarrow> js_value \<Rightarrow> room_e server \<Rightarrow> room_e server \<times> completion" where
  "chatMessage_body_e f now sock roomName msg st =
     (if findRoom_throws f then (st, Threw)
      else (case findOne_name_e (rooms st) roomName of
              None \<Rightarrow> (st, Normal)
            | Some room \<Rightarrow>
                (case new_message (re_id room) (userId (socket_user sock)) msg now of
                   None \<Rightarrow> (st, Threw)
                 | Some newMessage \<Rightarrow>
                     (case save_message f newMessage st of
                        (st1, Threw) \<Rightarrow> (st1, Threw)
                      | (st1, Normal) \<Rightarrow>
                          (case msg of
                             JString s \<Rightarrow>
                               (case mention_loop_e f (users st1) sock roomName s (match_username s) of
                                  (es, Threw) \<Rightarrow> (emit_effects es st1, Threw)
                                | (es, Normal) \<Rightarrow>
                                    (broadcast roomName sock newMessage (emit_effects es st1),
                                     Normal))
                           | _ \<Rightarrow> (st1, Threw))))))"

definition chatMessage_e ::
  "faults \<Rightarrow> nat \<Rightarrow> socket \<Rightarrow> string \<Rightarrow> js_value \<Rightarrow> room_e server \<Rightarrow> room_e server" where
  "chatMessage_e f now sock roomName msg st = catch_log (chatMessage_body_e f now sock roomName msg st)"

text \<open>\<^verbatim>\<open>POST /rooms\<close> of the second server, behind \<^verbatim>\<open>authMiddleware\<close>.\<close>

definition create_room_e ::
  "faults \<Rightarrow> oid \<Rightarrow> jwt_payload \<Rightarrow> string option \<Rightarrow> room_e server \<Rightarrow> room_e response \<times> room_e server" where
  "create_room_e f new_id req_user name st =
     (case name of
        None \<Rightarrow> (Json 400 ''Room name is required'', st)
      | Some n \<Rightarrow>
          if n = [] then (Json 400 ''Room name is required'', st)
          else if findRoom_throws f then (Json 500 ''Server error'', st)
          else (case findOne_name_e (rooms st) n of
                  Some existing \<Rightarrow> (Json 400 ''Room name already exists'', st)
                | None \<Rightarrow>
                    (let newRoom = \<lparr> re_id = new_id, re_name = n, owner = userId req_user \<rparr> in
                     if saveRoom_throws f \<or> new_id \<in> re_id ` set (rooms st)
                     then (Json 500 ''Server error'', st)
                     else (JsonRoom 201 ''Room created'' newRoom,
                           st\<lparr> rooms := rooms st @ [newRoom] \<rparr>))))"

text \<open>\<^verbatim>\<open>DELETE /rooms/:roomName\<close> of the second server, behind \<^verbatim>\<open>authMiddleware\<close>.\<close>

definition delete_room_e ::
  "faults \<Rightarrow> jwt_payload \<Rightarrow> string \<Rightarrow> room_e server \<Rightarrow> room_e response \<times> room_e server" where
  "delete_room_e f req_user roomName st =
     (if findRoom_throws f then (Json 500 ''Server error'', st)
      else (case findOne_name_e (rooms st) roomName of
              None \<Rightarrow> (Json 404 ''Room not found'', st)
            | Some room \<Rightarrow>
                if owner room \<noteq> userId req_user
                then (Json 403 ''You are not the owner of this room'', st)
                else if deleteRoom_throws f then (Json 500 ''Server error'', st)
                else (Json 200 ''Room deleted'',
                      st\<lparr> rooms := filter (\<lambda>r. re_id r \<noteq> re_id room) (rooms st) \<rparr>)))"

text \<open>\<^verbatim>\<open>.populate('user', 'username')\<close>: the author's id is replaced by the user document
  cut down to \<^verbatim>\<open>{ _id, username }\<close>, or by \<^verbatim>\<open>null\<close> when no such user is stored.\<close>

definition populate :: "user list \<Rightarrow> message \<Rightarrow> message \<times> (oid \<times> string) option" where
  "populate us m =
     (m, map_option (\<lambda>u. (u_id u, u_username u)) (find (\<lambda>u. u_id u = m_user m) us))"

text \<open>\<^verbatim>\<open>GET /rooms/:roomName/messages\<close> of the second server, which reads and does not
  write: the result is the response. \<open>get_messages_e\<close> is the handler behind
  \<^verbatim>\<open>authMiddleware\<close>, \<open>get_messages_route_e\<close> the route with the middleware in front.\<close>

definition get_messages_e ::
  "faults \<Rightarrow> jwt_payload \<Rightarrow> string \<Rightarrow> room_e server \<Rightarrow> room_e response" where
  "get_messages_e f req_user roomName st =
     (if findRoom_throws f then Json 500 ''Server error''
      else (case findOne_name_e (rooms st) roomName of
              None \<Rightarrow> Json 404 ''Room not found''
            | Some room \<Rightarrow>
                if findMessages_throws f then Json 500 ''Server error''
                else JsonList 200
                       (map (populate (users st))
                          (filter (\<lambda>m. m_room m = re_id room) (messages st)))))"

definition get_messages_route_e ::
  "(string \<Rightarrow> jwt_payload option) \<Rightarrow> faults \<Rightarrow> string option \<Rightarrow> string \<Rightarrow> room_e server
     \<Rightarrow> room_e response" where
  "get_messages_route_e verify f authorization roomName st =
     (case authMiddleware verify authorization of
        Inl res \<Rightarrow> res
      | Inr req_user \<Rightarrow> get_messages_e f req_user roomName st)"

section \<open>Events on a connection\<close>

datatype client_event = JoinRoom string bool | ChatMessage string js_value

text \<open>
  The handlers are registered inside \<^verbatim>\<open>io.on('connection', ...)\<close>, which runs for an
  admitted connection only: an event sent on a refused connection meets no handler.
\<close>

definition on_event_p ::
  "(string \<Rightarrow> oid option) \<Rightarrow> faults \<Rightarrow> nat \<Rightarrow> connection \<Rightarrow> client_event \<Rightarrow> room_p server
     \<Rightarrow> room_p server" where
  "on_event_p cast f now conn ev st =
     (case conn of
        Refused err \<Rightarrow> st
      | Admitted sock \<Rightarrow>
          (case ev of
             JoinRoom roomId callback \<Rightarrow> joinRoom_p cast f sock roomId callback st
           | ChatMessage roomId msg \<Rightarrow> chatMessage_p cast f now sock roomId msg st))"

definition on_event_e ::
  "faults \<Rightarrow> nat \<Rightarrow> connection \<Rightarrow> client_event \<Rightarrow> room_e server \<Rightarrow> room_e server" where
  "on_event_e f now conn ev st =
     (case conn of
        Refused err \<Rightarrow> st
      | Admitted sock \<Rightarrow>
          (case ev of
             JoinRoom roomName callback \<Rightarrow> joinRoom_e sock roomName callback st
           | ChatMessage roomName msg \<Rightarrow> chatMessage_e f now sock roomName msg st))"

section \<open>The minimal socket handler\<close>

text \<open>\<^verbatim>\<open>messageSchema\<close> of \<^verbatim>\<open>models/message.js\<close>: \<^verbatim>\<open>roomId\<close> and \<^verbatim>\<open>sender\<close> are ObjectIds,
  stored as their casts.\<close>

record message_m =
  mm_roomId :: oid
  mm_sender :: oid
  mm_content :: string
  mm_createdAt :: nat

text \<open>The \<^verbatim>\<open>'newMessage'\<close> event: \<^verbatim>\<open>{ roomId, sender: userId, content, createdAt }\<close>, with
  \<^verbatim>\<open>roomId\<close> and \<^verbatim>\<open>userId\<close> as the client sent them.\<close>

record event_m =
  em_roomId :: string
  em_sender :: string
  em_content :: string
  em_createdAt :: nat

datatype effect_m =
    Saved_m message_m
  | Emit_m string event_m
  | ConsoleLog_m string

text \<open>
  The state of the minimal server: the stored messages, the socket rooms, the sockets
  whose \<^verbatim>\<open>joinRoom\<close> and \<^verbatim>\<open>sendMessage\<close> listeners are registered, whether the process has
  ended, and the trace.
\<close>

record server_m =
  messages_m :: "message_m list"
  joined_m :: "(sid \<times> string) list"
  listening_m :: "sid list"
  exited_m :: bool
  trace_m :: "effect_m list"

text \<open>
  \<^verbatim>\<open>io.on('connection', (socket) => { ... })\<close> of \<^verbatim>\<open>socket.js\<close>. No middleware stands in
  front of it: it runs for every connection. It logs, registers the listeners for
  \<^verbatim>\<open>joinRoom\<close> and \<^verbatim>\<open>sendMessage\<close>, and then evaluates the bare identifier of line 32,
  which is not defined: a \<^verbatim>\<open>ReferenceError\<close> that nothing catches, which ends the process
  before the \<^verbatim>\<open>disconnect\<close> listener is registered.
\<close>

definition connection_m :: "sid \<Rightarrow> server_m \<Rightarrow> server_m" where
  "connection_m i st =
     (if exited_m st then st
      else st\<lparr> trace_m := trace_m st @ [ConsoleLog_m ''New client connected:''],
               listening_m := i # listening_m st,
               exited_m := True \<rparr>)"

text \<open>\<^verbatim>\<open>socket.on('joinRoom', async ({ roomId, userId }) => ...)\<close>.\<close>

definition joinRoom_m :: "sid \<Rightarrow> string \<Rightarrow> string \<Rightarrow> server_m \<Rightarrow> server_m" where
  "joinRoom_m i roomId uid st =
     st\<lparr> joined_m := List.insert (i, roomId) (joined_m st),
         trace_m := trace_m st @ [ConsoleLog_m (''User '' @ uid @ '' joined room '' @ roomId)] \<rparr>"

text \<open>
  The listener \<^verbatim>\<open>socket.on('sendMessage', async ({ roomId, userId, content }) => ...)\<close>.
  There is no \<^verbatim>\<open>try\<close> around it. \<^verbatim>\<open>new Message\<close> casts \<^verbatim>\<open>roomId\<close> and \<^verbatim>\<open>sender\<close> to
  ObjectIds; \<^verbatim>\<open>save\<close> rejects when a cast failed, when the required \<^verbatim>\<open>content\<close> is empty,
  and where \<open>rejects\<close> says so (a store failure). After a rejection the listener does
  nothing more. The event carries \<^verbatim>\<open>roomId\<close> and \<^verbatim>\<open>userId\<close> as they were sent. \<open>now\<close> is
  \<^verbatim>\<open>new Date()\<close>; \<^verbatim>\<open>content\<close> is taken to be a string.
\<close>

definition sendMessage_m ::
  "(string \<Rightarrow> oid option) \<Rightarrow> (message_m \<Rightarrow> bool) \<Rightarrow> nat \<Rightarrow> sid \<Rightarrow> string \<Rightarrow> string \<Rightarrow> string
     \<Rightarrow> server_m \<Rightarrow> server_m" where
  "sendMessage_m cast rejects now i roomId uid content st =
     (case cast roomId of
        None \<Rightarrow> st
      | Some room_id \<Rightarrow>
          (case cast uid of
             None \<Rightarrow> st
           | Some sender_id \<Rightarrow>
               (let newMessage = \<lparr> mm_roomId = room_id, mm_sender = sender_id,
                                   mm_content = content, mm_createdAt = now \<rparr> in
                if rejects newMessage \<or> content = [] then st
                else st\<lparr> messages_m := messages_m st @ [newMessage],
                         trace_m := trace_m st @
                           [Saved_m newMessage,
                            Emit_m roomId \<lparr> em_roomId = roomId, em_sender = uid,
                                            em_content = content,
                                            em_createdAt = mm_createdAt newMessage \<rparr>] \<rparr>)))"


datatype client_event_m = JoinRoom_m string string | SendMessage_m string string string

text \<open>An event from socket \<open>i\<close> reaches a listener only while the process runs and the
  listeners of that socket are registered.\<close>

definition receive_m ::
  "(string \<Rightarrow> oid option) \<Rightarrow> (message_m \<Rightarrow> bool) \<Rightarrow> nat \<Rightarrow> sid \<Rightarrow> client_event_m
     \<Rightarrow> server_m \<Rightarrow> server_m" where
  "receive_m cast rejects now i ev st =
     (if exited_m st \<or> i \<notin> set (listening_m st) then st
      else (case ev of
              JoinRoom_m roomId uid \<Rightarrow> joinRoom_m i roomId uid st
            | SendMessage_m roomId uid content \<Rightarrow>
                sendMessage_m cast rejects now i roomId uid content st))"

section \<open>The chat handlers between their awaits\<close>

text \<open>
  An \<^verbatim>\<open>async\<close> handler runs until its next \<^verbatim>\<open>await\<close>, and other handlers run while it
  waits. A task is a \<^verbatim>\<open>chatMessage\<close> handler suspended at one of its awaits, with the
  variables it still needs; a step resumes it with the outcome of the awaited call and
  runs it to the next await or to its end. In \<open>AwaitSave\<close> the document is \<open>None\<close> when
  its text could not be cast.
\<close>

datatype task_p =
    AwaitRoom faults nat socket string js_value
  | AwaitSave faults socket room_p string "message option" js_value
  | AwaitUser faults socket room_p string message "string list"
  | AwaitMail faults socket room_p string message mail "string list"
  | Finished

text \<open>The head of the \<^verbatim>\<open>for\<close> loop: the next mention's lookup, or the broadcast after the
  last one.\<close>

definition next_mention_p ::
  "faults \<Rightarrow> socket \<Rightarrow> room_p \<Rightarrow> string \<Rightarrow> message \<Rightarrow> string list \<Rightarrow> room_p server
     \<Rightarrow> task_p \<times> room_p server" where
  "next_mention_p f sock room roomId m mentions st =
     (case mentions of
        [] \<Rightarrow> (Finished, broadcast roomId sock m st)
      | _ # _ \<Rightarrow> (AwaitUser f sock room roomId m mentions, st))"

fun step_p :: "(string \<Rightarrow> oid option) \<Rightarrow> task_p \<Rightarrow> room_p server \<Rightarrow> task_p \<times> room_p server" where
  "step_p cast (AwaitRoom f now sock roomId msg) st =
     (if findRoom_throws f then (Finished, catch_log (st, Threw))
      else (case findById cast (rooms st) roomId of
              CastError \<Rightarrow> (Finished, catch_log (st, Threw))
            | NotFound \<Rightarrow> (Finished, st)
            | Found room \<Rightarrow>
                if userId (socket_user sock) \<notin> set (members room) then (Finished, st)
                else (AwaitSave f sock room roomId
                        (new_message (rp_id room) (userId (socket_user sock)) msg now) msg, st)))"
| "step_p cast (AwaitSave f sock room roomId doc msg) st =
     (case doc of
        None \<Rightarrow> (Finished, catch_log (st, Threw))
      | Some newMessage \<Rightarrow>
          (case save_message f newMessage st of
             (st1, Threw) \<Rightarrow> (Finished, catch_log (st1, Threw))
           | (st1, Normal) \<Rightarrow>
               (case msg of
                  JString s \<Rightarrow> next_mention_p f sock room roomId newMessage (match_email s) st1
                | _ \<Rightarrow> (Finished, catch_log (st1, Threw)))))"
| "step_p cast (AwaitUser f sock room roomId m []) st = next_mention_p f sock room roomId m [] st"
| "step_p cast (AwaitUser f sock room roomId m (mention # rest)) st =
     (let mentionedEmail = tl mention in
      if findUser_throws f mentionedEmail then (Finished, catch_log (st, Threw))
      else (case findOne_email (users st) mentionedEmail of
              None \<Rightarrow> next_mention_p f sock room roomId m rest st
            | Some userMentioned \<Rightarrow>
                if u_id userMentioned \<notin> set (members room)
                then (AwaitMail f sock room roomId m (mail_p sock room (m_text m) mentionedEmail) rest,
                      st)
                else next_mention_p f sock room roomId m rest st))"
| "step_p cast (AwaitMail f sock room roomId m ml rest) st =
     next_mention_p f sock room roomId m rest (emit_effects (try_sendMail f ml) st)"
| "step_p cast Finished st = (Finished, st)"

text \<open>The same for the \<^verbatim>\<open>chatMessage\<close> handler of the second server.\<close>

datatype task_e =
    AwaitRoom_e faults nat socket string js_value
  | AwaitSave_e faults socket string "message option" js_value
  | AwaitUser_e faults socket string message "string list"
  | AwaitMail_e faults socket string message mail "string list"
  | Finished_e

definition next_mention_e ::
  "faults \<Rightarrow> socket \<Rightarrow> string \<Rightarrow> message \<Rightarrow> string list \<Rightarrow> room_e server
     \<Rightarrow> task_e \<times> room_e server" where
  "next_mention_e f sock roomName m mentions st =
     (case mentions of
        [] \<Rightarrow> (Finished_e, broadcast roomName sock m st)
      | _ # _ \<Rightarrow> (AwaitUser_e f sock roomName m mentions, st))"

fun step_e :: "task_e \<Rightarrow> room_e server \<Rightarrow> task_e \<times> room_e server" where
  "step_e (AwaitRoom_e f now sock roomName msg) st =
     (if findRoom_throws f then (Finished_e, catch_log (st, Threw))
      else (case findOne_name_e (rooms st) roomName of
              None \<Rightarrow> (Finished_e, st)
            | Some room \<Rightarrow>
                (AwaitSave_e f sock roomName
                   (new_message (re_id room) (userId (socket_user sock)) msg now) msg, st)))"
| "step_e (AwaitSave_e f sock roomName doc msg) st =
     (case doc of
        None \<Rightarrow> (Finished_e, catch_log (st, Threw))
      | Some newMessage \<Rightarrow>
          (case save_message f newMessage st of
             (st1, Threw) \<Rightarrow> (Finished_e, catch_log (st1, Threw))
           | (st1, Normal) \<Rightarrow>
               (case msg of
                  JString s \<Rightarrow> next_mention_e f sock roomName newMessage (match_username s) st1
                | _ \<Rightarrow> (Finished_e, catch_log (st1, Threw)))))"
| "step_e (AwaitUser_e f sock roomName m []) st = next_mention_e f sock roomName m [] st"
| "step_e (AwaitUser_e f sock roomName m (mention # rest)) st =
     (let mentionedUsername = tl mention in
      if findUser_throws f mentionedUsername then (Finished_e, catch_log (st, Threw))
      else (case findOne_username (users st) mentionedUsername of
              None \<Rightarrow> next_mention_e f sock roomName m rest st
            | Some userMentioned \<Rightarrow>
                (AwaitMail_e f sock roomName m (mail_e sock roomName (m_text m) userMentioned) rest,
                 st)))"
| "step_e (AwaitMail_e f sock roomName m ml rest) st =
     next_mention_e f sock roomName m rest (emit_effects (try_sendMail f ml) st)"
| "step_e Finished_e st = (Finished_e, st)"

text \<open>One handler resumed \<open>n\<close> times in a row.\<close>

fun run :: "('t \<Rightarrow> 's \<Rightarrow> 't \<times> 's) \<Rightarrow> nat \<Rightarrow> 't \<times> 's \<Rightarrow> 't \<times> 's" where
  "run step 0 (t, st) = (t, st)"
| "run step (Suc n) (t, st) = run step n (step t st)"











text \<open>The mail a suspended handler is waiting for, if it waits for one.\<close>

fun awaiting_mail :: "task_p \<Rightarrow> mail option" where
  "awaiting_mail (AwaitMail f sock room roomId m ml rest) = Some ml"
| "awaiting_mail t = None"

section \<open>Reading a trace\<close>

text \<open>The mails handed to \<^verbatim>\<open>sendMail\<close>, delivered or not, in order.\<close>

fun attempts :: "effect list \<Rightarrow> mail list" where
  "attempts [] = []"
| "attempts (MailSent m # es) = m # attempts es"
| "attempts (MailFailed m # es) = m # attempts es"
| "attempts (e # es) = attempts es"

text \<open>The events emitted to one socket room, in order.\<close>

fun broadcasts :: "string \<Rightarrow> effect list \<Rightarrow> chat_event list" where
  "broadcasts key [] = []"
| "broadcasts key (Emit k ev # es) = (if k = key then ev # broadcasts key es else broadcasts key es)"
| "broadcasts key (e # es) = broadcasts key es"

text \<open>Whether an effect is a broadcast.\<close>

fun is_emit :: "effect \<Rightarrow> bool" where
  "is_emit (Emit k ev) = True"
| "is_emit e = False"

definition new_effects :: "'r server \<Rightarrow> 'r server \<Rightarrow> effect list" where
  "new_effects st st' = drop (length (trace st)) (trace st')"

definition new_messages :: "'r server \<Rightarrow> 'r server \<Rightarrow> message list" where
  "new_messages st st' = drop (length (messages st)) (messages st')"


text \<open>An event carries a stored message: same author, text and time.\<close>

definition carries :: "message \<Rightarrow> chat_event \<Rightarrow> bool" where
  "carries m ev = (ev_user_id ev = m_user m \<and> ev_text ev = m_text m \<and> ev_createdAt ev = m_createdAt m)"

section \<open>Example data\<close>

text \<open>
  The ObjectId cast on strings of 24 hex digits, which every version of the driver
  accepts and stores in lower case; other strings are taken to be refused.
\<close>

definition is_hex :: "char \<Rightarrow> bool" where
  "is_hex c = (let n = (of_char c :: nat) in
                 (48 \<le> n \<and> n \<le> 57) \<or> (65 \<le> n \<and> n \<le> 70) \<or> (97 \<le> n \<and> n \<le> 102))"

definition lower_hex :: "char \<Rightarrow> char" where
  "lower_hex c = (let n = (of_char c :: nat) in
                    if 65 \<le> n \<and> n \<le> 70 then char_of (n + 32) else c)"

definition hex_cast :: "string \<Rightarrow> oid option" where
  "hex_cast s = (if length s = 24 \<and> list_all is_hex s then Some (map lower_hex s) else None)"

definition alice_id :: oid where
  "alice_id = ''a00000000000000000000001''"

definition bob_id :: oid where
  "bob_id = ''b00000000000000000000002''"

definition general_id :: oid where
  "general_id = ''c00000000000000000000001''"

definition lobby_id :: oid where
  "lobby_id = ''c00000000000000000000002''"

definition den_id :: oid where
  "den_id = ''c00000000000000000000009''"



definition alice :: user where
  "alice = \<lparr> u_id = alice_id, u_username = ''alice'', u_email = ''alice@example.com'',
             u_password = ''x'' \<rparr>"

definition bob :: user where
  "bob = \<lparr> u_id = bob_id, u_username = ''bob'', u_email = ''bob@example.com'',
           u_password = ''y'' \<rparr>"

definition alice_jwt :: jwt_payload where
  "alice_jwt = \<lparr> userId = alice_id, jwt_username = ''alice'' \<rparr>"

definition bob_jwt :: jwt_payload where
  "bob_jwt = \<lparr> userId = bob_id, jwt_username = ''bob'' \<rparr>"

definition alice_socket :: socket where
  "alice_socket = \<lparr> socket_id = 1, socket_user = alice_jwt \<rparr>"

definition bob_socket :: socket where
  "bob_socket = \<lparr> socket_id = 2, socket_user = bob_jwt \<rparr>"

definition general :: room_p where
  "general = \<lparr> rp_id = general_id, rp_name = ''general'', members = [alice_id] \<rparr>"

definition lobby :: room_e where
  "lobby = \<lparr> re_id = lobby_id, re_name = ''lobby'', owner = alice_id \<rparr>"

definition den :: room_p where
  "den = \<lparr> rp_id = den_id, rp_name = ''den'', members = [alice_id, bob_id] \<rparr>"

text \<open>The first server with the room \<open>general\<close>, whose only member is alice.\<close>

definition server_p0 :: "room_p server" where
  "server_p0 = \<lparr> users = [alice, bob], rooms = [general], messages = [],
                 joined = [(1, general_id)], trace = [] \<rparr>"

text \<open>The second server with the room \<open>lobby\<close>, owned by alice.\<close>

definition server_e0 :: "room_e server" where
  "server_e0 = \<lparr> users = [alice, bob], rooms = [lobby], messages = [], joined = [],
                 trace = [] \<rparr>"

text \<open>The minimal server, started, before its first connection.\<close>

definition server_m0 :: server_m where
  "server_m0 = \<lparr> messages_m = [], joined_m = [], listening_m = [], exited_m = False,
                 trace_m = [] \<rparr>"

definition empty_p :: "room_p server" where
  "empty_p = \<lparr> users = [alice, bob], rooms = [], messages = [], joined = [], trace = [] \<rparr>"

text \<open>A token verifier that accepts the two tokens \<open>tok-alice\<close> and \<open>tok-bob\<close>.\<close>

definition verify0 :: "string \<Rightarrow> jwt_payload option" where
  "verify0 t = (if t = ''tok-alice'' then Some alice_jwt
                else if t = ''tok-bob'' then Some bob_jwt else None)"


text \<open>The first server after alice has created the room \<open>den\<close>, and after bob has joined it
  over \<^verbatim>\<open>POST /rooms/:roomId/join\<close>.\<close>

definition server_p1 :: "room_p server" where
  "server_p1 = snd (create_room_p no_faults den_id alice_jwt (Some ''den'') empty_p)"

definition server_p2 :: "room_p server" where
  "server_p2 = snd (join_room_p hex_cast no_faults bob_jwt den_id server_p1)"

text \<open>The second server after alice has posted into \<open>lobby\<close>.\<close>

definition server_e2 :: "room_e server" where
  "server_e2 = chatMessage_e no_faults 5 alice_socket ''lobby'' (JString ''hi'') server_e0"




section \<open>Posting without being a member (first server)\<close>

text \<open>
  C1, as the code has it: in the first server, a \<^verbatim>\<open>chatMessage\<close> for an existing room
  from a user who is not in the room's stored \<^verbatim>\<open>members\<close> list at that moment is
  dropped in silence. Nothing is appended, nothing is broadcast, no mail is sent, and
  nothing is sent back to the caller: the server is left exactly as it was (after a
  failed room lookup, with one line more on its console). The check reads the stored
  list at post time, so earlier membership plays no role.
\<close>

theorem C1_nonmember_post_dropped:
  "findById cast (rooms st) roomId = Found room \<Longrightarrow> userId (socket_user sock) \<notin> set (members room) \<Longrightarrow>
   chatMessage_p cast f now sock roomId msg st =
     (if findRoom_throws f then emit_effect (ConsoleError ''Error sending message:'') st else st)"
  by (simp add: chatMessage_p_def chatMessage_body_p_def catch_log_def)

text \<open>C1, witness: bob, who is not a member of \<open>general\<close>, posts into it.\<close>

theorem C1_nonmember_post_dropped_witness:
  "findById hex_cast (rooms server_p0) general_id = Found general
   \<and> userId (socket_user bob_socket) \<notin> set (members general)
   \<and> chatMessage_p hex_cast no_faults 5 bob_socket general_id (JString ''hello'') server_p0 = server_p0"
proof -
  have h: "findById hex_cast (rooms server_p0) general_id = Found general
   \<and> userId (socket_user bob_socket) \<notin> set (members general) \<and> \<not> findRoom_throws no_faults"
    by code_simp
  from h C1_nonmember_post_dropped [of hex_cast server_p0 general_id general bob_socket no_faults 5
      "JString ''hello''"]
  show ?thesis by simp
qed

text \<open>
  C1, counterexample to the claim as stated: bob's post has no effect at all, so no
  \<open>NotAMember\<close> reaches him, while his \<^verbatim>\<open>joinRoom\<close> for the same room is answered with
  that error.
\<close>

theorem C1_counterexample:
  "findById hex_cast (rooms server_p0) general_id = Found general
   \<and> userId (socket_user bob_socket) \<notin> set (members general)
   \<and> new_effects server_p0
       (chatMessage_p hex_cast no_faults 5 bob_socket general_id (JString ''hello'') server_p0) = []
   \<and> new_effects server_p0 (joinRoom_p hex_cast no_faults bob_socket general_id True server_p0)
       = [Callback 2 (AckError ''You are not a member of this room'')]"
  by code_simp

section \<open>What the handlers leave in the trace\<close>

lemma attempts_append: "attempts (xs @ ys) = attempts xs @ attempts ys"
  by (induction xs rule: attempts.induct) simp_all

lemma broadcasts_append: "broadcasts k (xs @ ys) = broadcasts k xs @ broadcasts k ys"
  by (induction k xs rule: broadcasts.induct) simp_all

lemma try_sendMail_attempts: "attempts (try_sendMail f m) = [m]"
  by (simp add: try_sendMail_def)

lemma try_sendMail_broadcasts: "broadcasts k (try_sendMail f m) = []"
  by (simp add: try_sendMail_def)

lemma loop_p_broadcasts: "broadcasts k (fst (mention_loop_p f us sock room msg ms)) = []"
  by (induction ms) (simp_all add: Let_def and_then_def broadcasts_append try_sendMail_broadcasts split: option.split)

lemma loop_e_broadcasts: "broadcasts k (fst (mention_loop_e f us sock rn msg ms)) = []"
  by (induction ms) (simp_all add: Let_def and_then_def broadcasts_append try_sendMail_broadcasts split: option.split)

lemma loop_p_normal:
  "list_all (\<lambda>m. \<not> findUser_throws f (tl m)) ms \<Longrightarrow> snd (mention_loop_p f us sock room msg ms) = Normal"
  by (induction ms) (simp_all add: Let_def and_then_def split: option.split)

lemma loop_e_normal:
  "list_all (\<lambda>m. \<not> findUser_throws f (tl m)) ms \<Longrightarrow> snd (mention_loop_e f us sock rn msg ms) = Normal"
  by (induction ms) (simp_all add: Let_def and_then_def split: option.split)




lemma loop_p_mail_outcome:
  "attempts (fst (mention_loop_p (f\<lparr> sendMail_throws := g \<rparr>) us sock room msg ms))
     = attempts (fst (mention_loop_p f us sock room msg ms))
   \<and> snd (mention_loop_p (f\<lparr> sendMail_throws := g \<rparr>) us sock room msg ms)
     = snd (mention_loop_p f us sock room msg ms)"
  by (induction ms) (simp_all add: Let_def and_then_def attempts_append try_sendMail_attempts split: option.split)

lemma loop_e_mail_outcome:
  "attempts (fst (mention_loop_e (f\<lparr> sendMail_throws := g \<rparr>) us sock rn msg ms))
     = attempts (fst (mention_loop_e f us sock rn msg ms))
   \<and> snd (mention_loop_e (f\<lparr> sendMail_throws := g \<rparr>) us sock rn msg ms)
     = snd (mention_loop_e f us sock rn msg ms)"
  by (induction ms) (simp_all add: Let_def and_then_def attempts_append try_sendMail_attempts split: option.split)

lemma new_effects_eq: "trace st' = trace st @ es \<Longrightarrow> new_effects st st' = es"
  by (simp add: new_effects_def)

lemma new_messages_eq: "messages st' = messages st @ ms \<Longrightarrow> new_messages st st' = ms"
  by (simp add: new_messages_def)

lemma findById_Found: "findById cast rs i = Found room \<Longrightarrow> cast i = Some (rp_id room)"
  by (auto simp: findById_def find_Some_iff split: option.splits)

lemma chatMessage_p_frame:
  "users (chatMessage_p cast f now sock roomId msg st) = users st
   \<and> rooms (chatMessage_p cast f now sock roomId msg st) = rooms st
   \<and> joined (chatMessage_p cast f now sock roomId msg st) = joined st"
  by (simp add: chatMessage_p_def chatMessage_body_p_def catch_log_def save_message_def Let_def
      emit_effect_def emit_effects_def broadcast_def
      split: option.split prod.split completion.split found.split js_value.split)

lemma chatMessage_p_trace:
  "trace (chatMessage_p cast f now sock roomId msg st) = trace st @
     (if findRoom_throws f then [ConsoleError ''Error sending message:'']
      else (case findById cast (rooms st) roomId of
              CastError \<Rightarrow> [ConsoleError ''Error sending message:'']
            | NotFound \<Rightarrow> []
            | Found room \<Rightarrow>
                if userId (socket_user sock) \<notin> set (members room) then []
                else (case new_message (rp_id room) (userId (socket_user sock)) msg now of
                        None \<Rightarrow> [ConsoleError ''Error sending message:'']
                      | Some m \<Rightarrow>
                          if saveMessage_throws f \<or> m_text m = []
                          then [ConsoleError ''Error sending message:'']
                          else Saved m #
                            (case msg of
                               JString s \<Rightarrow>
                                 fst (mention_loop_p f (users st) sock room s (match_email s)) @
                                 [case snd (mention_loop_p f (users st) sock room s (match_email s)) of
                                    Normal \<Rightarrow> Emit roomId (event_of sock m)
                                  | Threw \<Rightarrow> ConsoleError ''Error sending message:'']
                             | _ \<Rightarrow> [ConsoleError ''Error sending message:'']))))"
  by (simp add: chatMessage_p_def chatMessage_body_p_def catch_log_def save_message_def Let_def
      emit_effect_def emit_effects_def broadcast_def
      split: option.split prod.split completion.split found.split js_value.split)

lemma chatMessage_p_messages:
  "messages (chatMessage_p cast f now sock roomId msg st) = messages st @
     (if findRoom_throws f then []
      else (case findById cast (rooms st) roomId of
              CastError \<Rightarrow> []
            | NotFound \<Rightarrow> []
            | Found room \<Rightarrow>
                if userId (socket_user sock) \<notin> set (members room) then []
                else (case new_message (rp_id room) (userId (socket_user sock)) msg now of
                        None \<Rightarrow> []
                      | Some m \<Rightarrow> if saveMessage_throws f \<or> m_text m = [] then [] else [m])))"
  by (simp add: chatMessage_p_def chatMessage_body_p_def catch_log_def save_message_def Let_def
      emit_effect_def emit_effects_def broadcast_def
      split: option.split prod.split completion.split found.split js_value.split)

lemma chatMessage_e_frame:
  "users (chatMessage_e f now sock rn msg st) = users st
   \<and> rooms (chatMessage_e f now sock rn msg st) = rooms st
   \<and> joined (chatMessage_e f now sock rn msg st) = joined st"
  by (simp add: chatMessage_e_def chatMessage_body_e_def catch_log_def save_message_def Let_def
      emit_effect_def emit_effects_def broadcast_def
      split: option.split prod.split completion.split js_value.split)

lemma chatMessage_e_trace:
  "trace (chatMessage_e f now sock rn msg st) = trace st @
     (if findRoom_throws f then [ConsoleError ''Error sending message:'']
      else (case findOne_name_e (rooms st) rn of
              None \<Rightarrow> []
            | Some room \<Rightarrow>
                (case new_message (re_id room) (userId (socket_user sock)) msg now of
                   None \<Rightarrow> [ConsoleError ''Error sending message:'']
                 | Some m \<Rightarrow>
                     if saveMessage_throws f \<or> m_text m = []
                     then [ConsoleError ''Error sending message:'']
                     else Saved m #
                       (case msg of
                          JString s \<Rightarrow>
                            fst (mention_loop_e f (users st) sock rn s (match_username s)) @
                            [case snd (mention_loop_e f (users st) sock rn s (match_username s)) of
                               Normal \<Rightarrow> Emit rn (event_of sock m)
                             | Threw \<Rightarrow> ConsoleError ''Error sending message:'']
                        | _ \<Rightarrow> [ConsoleError ''Error sending message:'']))))"
  by (simp add: chatMessage_e_def chatMessage_body_e_def catch_log_def save_message_def Let_def
      emit_effect_def emit_effects_def broadcast_def
      split: option.split prod.split completion.split js_value.split)

lemma chatMessage_e_messages:
  "messages (chatMessage_e f now sock rn msg st) = messages st @
     (if findRoom_throws f then []
      else (case findOne_name_e (rooms st) rn of
              None \<Rightarrow> []
            | Some room \<Rightarrow>
                (case new_message (re_id room) (userId (socket_user sock)) msg now of
                   None \<Rightarrow> []
                 | Some m \<Rightarrow> if saveMessage_throws f \<or> m_text m = [] then [] else [m])))"
  by (simp add: chatMessage_e_def chatMessage_body_e_def catch_log_def save_message_def Let_def
      emit_effect_def emit_effects_def broadcast_def
      split: option.split prod.split completion.split js_value.split)

lemma try_sendMail_no_emit: "\<not> list_ex is_emit (try_sendMail f m)"
  by (simp add: try_sendMail_def)

lemma loop_p_no_emit: "\<not> list_ex is_emit (fst (mention_loop_p f us sock room msg ms))"
  by (induction ms) (simp_all add: Let_def and_then_def try_sendMail_no_emit split: option.split)

lemma loop_e_no_emit: "\<not> list_ex is_emit (fst (mention_loop_e f us sock rn msg ms))"
  by (induction ms) (simp_all add: Let_def and_then_def try_sendMail_no_emit split: option.split)

lemma carries_event_of: "m_user m = userId (socket_user sock) \<Longrightarrow> carries m (event_of sock m)"
  by (simp add: carries_def event_of_def)

lemma new_message_Some:
  "new_message r u msg now = Some m \<Longrightarrow>
   m_room m = r \<and> m_user m = u \<and> m_createdAt m = now \<and> cast_text msg = Some (m_text m)"
  by (auto simp: new_message_def)

lemma chatMessage_p_emit_stored:
  "broadcasts k (new_effects st (chatMessage_p cast f now sock roomId msg st)) = []
   \<or> (\<exists>m. new_messages st (chatMessage_p cast f now sock roomId msg st) = [m]
          \<and> broadcasts k (new_effects st (chatMessage_p cast f now sock roomId msg st))
              = [event_of sock m]
          \<and> m_user m = userId (socket_user sock))"
  by (simp add: new_effects_eq [OF chatMessage_p_trace] new_messages_eq [OF chatMessage_p_messages]
      broadcasts_append loop_p_broadcasts new_message_Some
      split: option.split completion.split found.split js_value.split)

lemma chatMessage_e_emit_stored:
  "broadcasts k (new_effects st (chatMessage_e f now sock rn msg st)) = []
   \<or> (\<exists>m. new_messages st (chatMessage_e f now sock rn msg st) = [m]
          \<and> broadcasts k (new_effects st (chatMessage_e f now sock rn msg st))
              = [event_of sock m]
          \<and> m_user m = userId (socket_user sock))"
  by (simp add: new_effects_eq [OF chatMessage_e_trace] new_messages_eq [OF chatMessage_e_messages]
      broadcasts_append loop_e_broadcasts new_message_Some
      split: option.split completion.split js_value.split)

section \<open>Who is notified of a mention\<close>







section \<open>A failed append\<close>

text \<open>
  C5, as the code has it, for both servers of \<^verbatim>\<open>back/server.js\<close>: when the checks pass and
  \<^verbatim>\<open>newMessage.save()\<close> rejects (the store fails, or the text cannot be cast or is
  empty), the only thing the handler does is to write the error to the server's console:
  nothing is stored, nothing is broadcast, no mail is sent and nothing is sent to the
  calling connection. And every event a handler broadcasts carries a message that the
  same handler has stored.
\<close>

theorem C5_failed_append:
  "(\<not> findRoom_throws f \<and> findById cast (rooms st) roomId = Found room
      \<and> userId (socket_user sock) \<in> set (members room)
      \<and> (saveMessage_throws f \<or> cast_text msg = None \<or> cast_text msg = Some [])
    \<longrightarrow> chatMessage_p cast f now sock roomId msg st
          = emit_effect (ConsoleError ''Error sending message:'') st)
   \<and> (\<not> findRoom_throws f \<and> findOne_name_e (rooms st') roomName = Some room'
      \<and> (saveMessage_throws f \<or> cast_text msg = None \<or> cast_text msg = Some [])
    \<longrightarrow> chatMessage_e f now sock roomName msg st'
          = emit_effect (ConsoleError ''Error sending message:'') st')
   \<and> (\<forall>ev \<in> set (broadcasts k (new_effects st (chatMessage_p cast f now sock roomId msg st))).
        \<exists>m \<in> set (new_messages st (chatMessage_p cast f now sock roomId msg st)). carries m ev)
   \<and> (\<forall>ev \<in> set (broadcasts k (new_effects st' (chatMessage_e f now sock roomName msg st'))).
        \<exists>m \<in> set (new_messages st' (chatMessage_e f now sock roomName msg st')). carries m ev)"
proof (intro conjI)
  show "\<forall>ev \<in> set (broadcasts k (new_effects st (chatMessage_p cast f now sock roomId msg st))).
        \<exists>m \<in> set (new_messages st (chatMessage_p cast f now sock roomId msg st)). carries m ev"
    using chatMessage_p_emit_stored [of k st cast f now sock roomId msg]
    by (auto simp: carries_event_of)
  show "\<forall>ev \<in> set (broadcasts k (new_effects st' (chatMessage_e f now sock roomName msg st'))).
        \<exists>m \<in> set (new_messages st' (chatMessage_e f now sock roomName msg st')). carries m ev"
    using chatMessage_e_emit_stored [of k st' f now sock roomName msg]
    by (auto simp: carries_event_of)
qed (auto simp add: chatMessage_p_def chatMessage_body_p_def chatMessage_e_def chatMessage_body_e_def
      catch_log_def save_message_def new_message_def split: option.split)

text \<open>C5, witness: alice's post with a rejecting \<^verbatim>\<open>save\<close>, and her post with a working one.\<close>

theorem C5_failed_append_witness:
  "(\<not> findRoom_throws (no_faults\<lparr> saveMessage_throws := True \<rparr>)
      \<and> findById hex_cast (rooms server_p0) general_id = Found general
      \<and> userId (socket_user alice_socket) \<in> set (members general)
      \<and> saveMessage_throws (no_faults\<lparr> saveMessage_throws := True \<rparr>)
      \<and> findOne_name_e (rooms server_e0) ''lobby'' = Some lobby)
   \<and> chatMessage_p hex_cast (no_faults\<lparr> saveMessage_throws := True \<rparr>) 5 alice_socket general_id
        (JString ''hi'') server_p0
       = emit_effect (ConsoleError ''Error sending message:'') server_p0
   \<and> chatMessage_e (no_faults\<lparr> saveMessage_throws := True \<rparr>) 5 alice_socket ''lobby''
        (JString ''hi'') server_e0
       = emit_effect (ConsoleError ''Error sending message:'') server_e0
   \<and> event_of alice_socket \<lparr> m_room = general_id, m_user = alice_id, m_text = ''hi'', m_createdAt = 5 \<rparr>
       \<in> set (broadcasts general_id (new_effects server_p0
            (chatMessage_p hex_cast no_faults 5 alice_socket general_id (JString ''hi'') server_p0)))
   \<and> (\<exists>m \<in> set (new_messages server_p0
                   (chatMessage_p hex_cast no_faults 5 alice_socket general_id (JString ''hi'') server_p0)).
        carries m (event_of alice_socket
          \<lparr> m_room = general_id, m_user = alice_id, m_text = ''hi'', m_createdAt = 5 \<rparr>))
   \<and> event_of alice_socket \<lparr> m_room = lobby_id, m_user = alice_id, m_text = ''hi'', m_createdAt = 5 \<rparr>
       \<in> set (broadcasts ''lobby'' (new_effects server_e0
            (chatMessage_e no_faults 5 alice_socket ''lobby'' (JString ''hi'') server_e0)))
   \<and> (\<exists>m \<in> set (new_messages server_e0
                   (chatMessage_e no_faults 5 alice_socket ''lobby'' (JString ''hi'') server_e0)).
        carries m (event_of alice_socket
          \<lparr> m_room = lobby_id, m_user = alice_id, m_text = ''hi'', m_createdAt = 5 \<rparr>))"
proof -
  have h: "\<not> findRoom_throws (no_faults\<lparr> saveMessage_throws := True \<rparr>)
      \<and> findById hex_cast (rooms server_p0) general_id = Found general
      \<and> userId (socket_user alice_socket) \<in> set (members general)
      \<and> saveMessage_throws (no_faults\<lparr> saveMessage_throws := True \<rparr>)
      \<and> findOne_name_e (rooms server_e0) ''lobby'' = Some lobby"
    by code_simp
  have bp: "event_of alice_socket \<lparr> m_room = general_id, m_user = alice_id, m_text = ''hi'', m_createdAt = 5 \<rparr>
       \<in> set (broadcasts general_id (new_effects server_p0
            (chatMessage_p hex_cast no_faults 5 alice_socket general_id (JString ''hi'') server_p0)))"
    by code_simp
  have be: "event_of alice_socket \<lparr> m_room = lobby_id, m_user = alice_id, m_text = ''hi'', m_createdAt = 5 \<rparr>
       \<in> set (broadcasts ''lobby'' (new_effects server_e0
            (chatMessage_e no_faults 5 alice_socket ''lobby'' (JString ''hi'') server_e0)))"
    by code_simp
  from h bp be
    C5_failed_append [where cast = hex_cast and f = "no_faults\<lparr> saveMessage_throws := True \<rparr>"
      and st = server_p0 and roomId = general_id and room = general and sock = alice_socket
      and msg = "JString ''hi''" and now = 5 and st' = server_e0 and roomName = "''lobby''"
      and room' = lobby and k = general_id]
    C5_failed_append [where cast = hex_cast and f = no_faults and st = server_p0
      and roomId = general_id and room = general and sock = alice_socket and msg = "JString ''hi''"
      and k = general_id and now = 5 and st' = server_e0 and roomName = "''lobby''" and room' = lobby]
    C5_failed_append [where cast = hex_cast and f = no_faults and st = server_p0
      and roomId = general_id and room = general and sock = alice_socket and msg = "JString ''hi''"
      and k = "''lobby''" and now = 5 and st' = server_e0 and roomName = "''lobby''" and room' = lobby]
  show ?thesis by blast
qed

text \<open>C5, counterexample to the claim as stated: the append fails for alice, a member, and
  the handler's only effect is a console line; the failure does not reach her.\<close>

theorem C5_counterexample:
  "findById hex_cast (rooms server_p0) general_id = Found general
   \<and> userId (socket_user alice_socket) \<in> set (members general)
   \<and> new_effects server_p0
       (chatMessage_p hex_cast (no_faults\<lparr> saveMessage_throws := True \<rparr>) 5 alice_socket general_id
          (JString ''hi'') server_p0)
     = [ConsoleError ''Error sending message:'']"
  by code_simp

section \<open>Notification and broadcast\<close>

text \<open>
  C6, as the code has it, for both servers of \<^verbatim>\<open>back/server.js\<close>: the mails are awaited
  inline. When a post is stored, its message is a string and no lookup throws, the
  broadcast is the last effect of the handler: every mail handed to \<^verbatim>\<open>sendMail\<close> for the
  message has been delivered or has failed before the event is emitted. Whether a
  delivery fails changes neither what is broadcast nor which mails are attempted. A
  message that is not a string but can be cast is stored, and the handler then throws at
  \<^verbatim>\<open>message.match\<close>: it is neither mailed nor broadcast.
\<close>

theorem C6_broadcast_after_mails:
  "(\<not> findRoom_throws f \<and> findById cast (rooms st) roomId = Found room
      \<and> userId (socket_user sock) \<in> set (members room)
      \<and> \<not> saveMessage_throws f \<and> s \<noteq> []
      \<and> list_all (\<lambda>m. \<not> findUser_throws f (tl m)) (match_email s)
    \<longrightarrow> last (new_effects st (chatMessage_p cast f now sock roomId (JString s) st))
          = Emit roomId (event_of sock \<lparr> m_room = rp_id room, m_user = userId (socket_user sock),
                                          m_text = s, m_createdAt = now \<rparr>)
        \<and> \<not> list_ex is_emit (butlast (new_effects st (chatMessage_p cast f now sock roomId (JString s) st)))
        \<and> attempts (butlast (new_effects st (chatMessage_p cast f now sock roomId (JString s) st)))
          = attempts (new_effects st (chatMessage_p cast f now sock roomId (JString s) st)))
   \<and> (\<not> findRoom_throws f \<and> findOne_name_e (rooms st') roomName = Some room'
      \<and> \<not> saveMessage_throws f \<and> s' \<noteq> []
      \<and> list_all (\<lambda>m. \<not> findUser_throws f (tl m)) (match_username s')
    \<longrightarrow> last (new_effects st' (chatMessage_e f now sock roomName (JString s') st'))
          = Emit roomName (event_of sock \<lparr> m_room = re_id room', m_user = userId (socket_user sock),
                                            m_text = s', m_createdAt = now \<rparr>)
        \<and> \<not> list_ex is_emit (butlast (new_effects st' (chatMessage_e f now sock roomName (JString s') st')))
        \<and> attempts (butlast (new_effects st' (chatMessage_e f now sock roomName (JString s') st')))
          = attempts (new_effects st' (chatMessage_e f now sock roomName (JString s') st')))
   \<and> broadcasts k (new_effects st (chatMessage_p cast (f\<lparr> sendMail_throws := g \<rparr>) now sock roomId msg st))
       = broadcasts k (new_effects st (chatMessage_p cast f now sock roomId msg st))
   \<and> attempts (new_effects st (chatMessage_p cast (f\<lparr> sendMail_throws := g \<rparr>) now sock roomId msg st))
       = attempts (new_effects st (chatMessage_p cast f now sock roomId msg st))
   \<and> broadcasts k (new_effects st' (chatMessage_e (f\<lparr> sendMail_throws := g \<rparr>) now sock roomName msg st'))
       = broadcasts k (new_effects st' (chatMessage_e f now sock roomName msg st'))
   \<and> attempts (new_effects st' (chatMessage_e (f\<lparr> sendMail_throws := g \<rparr>) now sock roomName msg st'))
       = attempts (new_effects st' (chatMessage_e f now sock roomName msg st'))
   \<and> (\<not> findRoom_throws f \<and> findById cast (rooms st) roomId = Found room
      \<and> userId (socket_user sock) \<in> set (members room)
      \<and> \<not> saveMessage_throws f \<and> t \<noteq> []
    \<longrightarrow> new_effects st (chatMessage_p cast f now sock roomId (JCastable t) st)
        = [Saved \<lparr> m_room = rp_id room, m_user = userId (socket_user sock),
                   m_text = t, m_createdAt = now \<rparr>,
           ConsoleError ''Error sending message:''])
   \<and> (\<not> findRoom_throws f \<and> findOne_name_e (rooms st') roomName = Some room'
      \<and> \<not> saveMessage_throws f \<and> t \<noteq> []
    \<longrightarrow> new_effects st' (chatMessage_e f now sock roomName (JCastable t) st')
        = [Saved \<lparr> m_room = re_id room', m_user = userId (socket_user sock),
                   m_text = t, m_createdAt = now \<rparr>,
           ConsoleError ''Error sending message:''])"
proof (intro conjI impI)
  show "broadcasts k (new_effects st (chatMessage_p cast (f\<lparr> sendMail_throws := g \<rparr>) now sock roomId msg st))
       = broadcasts k (new_effects st (chatMessage_p cast f now sock roomId msg st))"
    by (simp add: new_effects_eq [OF chatMessage_p_trace] Let_def broadcasts_append
        loop_p_broadcasts loop_p_mail_outcome split: option.split found.split js_value.split)
  show "attempts (new_effects st (chatMessage_p cast (f\<lparr> sendMail_throws := g \<rparr>) now sock roomId msg st))
       = attempts (new_effects st (chatMessage_p cast f now sock roomId msg st))"
    by (simp add: new_effects_eq [OF chatMessage_p_trace] Let_def attempts_append
        loop_p_mail_outcome split: option.split completion.split found.split js_value.split)
  show "broadcasts k (new_effects st' (chatMessage_e (f\<lparr> sendMail_throws := g \<rparr>) now sock roomName msg st'))
       = broadcasts k (new_effects st' (chatMessage_e f now sock roomName msg st'))"
    by (simp add: new_effects_eq [OF chatMessage_e_trace] Let_def broadcasts_append
        loop_e_broadcasts loop_e_mail_outcome split: option.split js_value.split)
  show "attempts (new_effects st' (chatMessage_e (f\<lparr> sendMail_throws := g \<rparr>) now sock roomName msg st'))
       = attempts (new_effects st' (chatMessage_e f now sock roomName msg st'))"
    by (simp add: new_effects_eq [OF chatMessage_e_trace] Let_def attempts_append
        loop_e_mail_outcome split: option.split completion.split js_value.split)
qed (simp_all add: new_effects_eq [OF chatMessage_p_trace] new_effects_eq [OF chatMessage_e_trace]
      Let_def loop_p_normal loop_e_normal loop_p_no_emit loop_e_no_emit new_message_def cast_text_def
      butlast_snoc [of "x # xs" for x xs, simplified] attempts_append)

text \<open>C6, witness: alice mentions bob, in either server, and alice sends the number 42.\<close>

theorem C6_broadcast_after_mails_witness:
  "(\<not> findRoom_throws no_faults \<and> findById hex_cast (rooms server_p0) general_id = Found general
      \<and> userId (socket_user alice_socket) \<in> set (members general)
      \<and> \<not> saveMessage_throws no_faults \<and> ''hi @bob@example.com'' \<noteq> []
      \<and> list_all (\<lambda>m. \<not> findUser_throws no_faults (tl m)) (match_email ''hi @bob@example.com'')
      \<and> findOne_name_e (rooms server_e0) ''lobby'' = Some lobby \<and> ''hi @bob'' \<noteq> []
      \<and> list_all (\<lambda>m. \<not> findUser_throws no_faults (tl m)) (match_username ''hi @bob'')
      \<and> ''42'' \<noteq> [])
   \<and> last (new_effects server_p0
        (chatMessage_p hex_cast no_faults 5 alice_socket general_id (JString ''hi @bob@example.com'') server_p0))
       = Emit general_id (event_of alice_socket
           \<lparr> m_room = rp_id general, m_user = userId (socket_user alice_socket),
             m_text = ''hi @bob@example.com'', m_createdAt = 5 \<rparr>)
   \<and> attempts (butlast (new_effects server_p0
         (chatMessage_p hex_cast no_faults 5 alice_socket general_id (JString ''hi @bob@example.com'') server_p0)))
       = attempts (new_effects server_p0
         (chatMessage_p hex_cast no_faults 5 alice_socket general_id (JString ''hi @bob@example.com'') server_p0))
   \<and> last (new_effects server_e0
         (chatMessage_e no_faults 5 alice_socket ''lobby'' (JString ''hi @bob'') server_e0))
       = Emit ''lobby'' (event_of alice_socket
           \<lparr> m_room = re_id lobby, m_user = userId (socket_user alice_socket),
             m_text = ''hi @bob'', m_createdAt = 5 \<rparr>)
   \<and> attempts (butlast (new_effects server_e0
         (chatMessage_e no_faults 5 alice_socket ''lobby'' (JString ''hi @bob'') server_e0)))
       = attempts (new_effects server_e0
         (chatMessage_e no_faults 5 alice_socket ''lobby'' (JString ''hi @bob'') server_e0))
   \<and> new_effects server_p0
         (chatMessage_p hex_cast no_faults 5 alice_socket general_id (JCastable ''42'') server_p0)
       = [Saved \<lparr> m_room = rp_id general, m_user = userId (socket_user alice_socket),
                  m_text = ''42'', m_createdAt = 5 \<rparr>,
          ConsoleError ''Error sending message:'']
   \<and> new_effects server_e0
         (chatMessage_e no_faults 5 alice_socket ''lobby'' (JCastable ''42'') server_e0)
       = [Saved \<lparr> m_room = re_id lobby, m_user = userId (socket_user alice_socket),
                  m_text = ''42'', m_createdAt = 5 \<rparr>,
          ConsoleError ''Error sending message:'']"
proof -
  have h: "\<not> findRoom_throws no_faults \<and> findById hex_cast (rooms server_p0) general_id = Found general
      \<and> userId (socket_user alice_socket) \<in> set (members general)
      \<and> \<not> saveMessage_throws no_faults \<and> ''hi @bob@example.com'' \<noteq> []
      \<and> list_all (\<lambda>m. \<not> findUser_throws no_faults (tl m)) (match_email ''hi @bob@example.com'')
      \<and> findOne_name_e (rooms server_e0) ''lobby'' = Some lobby \<and> ''hi @bob'' \<noteq> []
      \<and> list_all (\<lambda>m. \<not> findUser_throws no_faults (tl m)) (match_username ''hi @bob'')
      \<and> ''42'' \<noteq> []"
    by code_simp
  from h C6_broadcast_after_mails [where cast = hex_cast and f = no_faults and st = server_p0
      and roomId = general_id and room = general and sock = alice_socket
      and s = "''hi @bob@example.com''" and now = 5 and st' = server_e0 and roomName = "''lobby''"
      and room' = lobby and s' = "''hi @bob''" and t = "''42''" and k = general_id
      and g = "\<lambda>a. False" and msg = "JString ''hi''"]
  show ?thesis by blast
qed

text \<open>
  C6, counterexample to the claim as stated: the mail to bob is delivered before the
  event is emitted; and the handler, resumed three times, is waiting for \<^verbatim>\<open>sendMail\<close> with
  nothing broadcast yet.
\<close>

theorem C6_counterexample:
  "new_effects server_p0
     (chatMessage_p hex_cast no_faults 5 alice_socket general_id (JString ''hi @bob@example.com'') server_p0)
   = [Saved \<lparr> m_room = general_id, m_user = alice_id, m_text = ''hi @bob@example.com'',
              m_createdAt = 5 \<rparr>,
      MailSent \<lparr> mail_to = ''bob@example.com'', mail_sender = ''alice'', mail_room = ''general'',
                 mail_message = ''hi @bob@example.com'' \<rparr>,
      ConsoleLog ''Mention email sent to bob@example.com'',
      Emit general_id \<lparr> ev_user_id = alice_id, ev_username = ''alice'',
                        ev_text = ''hi @bob@example.com'', ev_createdAt = 5 \<rparr>]
   \<and> awaiting_mail (fst (run (step_p hex_cast) 3
        (AwaitRoom no_faults 5 alice_socket general_id (JString ''hi @bob@example.com''), server_p0)))
     = Some \<lparr> mail_to = ''bob@example.com'', mail_sender = ''alice'', mail_room = ''general'',
                 mail_message = ''hi @bob@example.com'' \<rparr>
   \<and> broadcasts general_id (trace (snd (run (step_p hex_cast) 3
        (AwaitRoom no_faults 5 alice_socket general_id (JString ''hi @bob@example.com''), server_p0)))) = []"
  by code_simp

section \<open>Deleting a room\<close>

lemma findById_filter:
  "findById cast rs i = Found room \<Longrightarrow>
   findById cast (filter (\<lambda>r. rp_id r \<noteq> rp_id room) rs) i = NotFound"
proof -
  assume a: "findById cast rs i = Found room"
  have "find (\<lambda>r. rp_id r = rp_id room) (filter (\<lambda>r. rp_id r \<noteq> rp_id room) rs) = None"
    by (induction rs) simp_all
  with findById_Found [OF a] show ?thesis by (simp add: findById_def)
qed

text \<open>
  C7, as the code has it. In the first server a room has no owner: \<^verbatim>\<open>DELETE /rooms/:roomId\<close>
  on an existing room answers 403 exactly when the requester is not in the room's
  \<^verbatim>\<open>members\<close> list, and for every member it answers 200 and removes the room document,
  member list included. In the second server \<^verbatim>\<open>DELETE /rooms/:roomName\<close> answers 403
  exactly when the requester is not the stored \<^verbatim>\<open>owner\<close>, and for the owner it answers 200
  and removes the room document. (No awaited call failing.)
\<close>

theorem C7_delete_guard:
  "(\<not> findRoom_throws f \<and> \<not> deleteRoom_throws f \<and> findById cast (rooms st) roomId = Found room
    \<longrightarrow> delete_room_p cast f req_user roomId st
        = (if userId req_user \<in> set (members room)
           then (Json 200 ''Room deleted'',
                 st\<lparr> rooms := filter (\<lambda>r. rp_id r \<noteq> rp_id room) (rooms st) \<rparr>)
           else (Json 403 ''You are not a member of this room'', st))
      \<and> findById cast (filter (\<lambda>r. rp_id r \<noteq> rp_id room) (rooms st)) roomId = NotFound)
   \<and> (\<not> findRoom_throws f \<and> \<not> deleteRoom_throws f \<and> findOne_name_e (rooms st') roomName = Some room'
    \<longrightarrow> delete_room_e f req_user roomName st'
        = (if owner room' = userId req_user
           then (Json 200 ''Room deleted'',
                 st'\<lparr> rooms := filter (\<lambda>r. re_id r \<noteq> re_id room') (rooms st') \<rparr>)
           else (Json 403 ''You are not the owner of this room'', st'))
      \<and> room' \<notin> set (filter (\<lambda>r. re_id r \<noteq> re_id room') (rooms st')))"
  by (simp add: delete_room_p_def delete_room_e_def findById_filter)

text \<open>C7, witness: bob, a member of \<open>den\<close>, deletes it in the first server; bob, who does
  not own \<open>lobby\<close>, is refused in the second.\<close>

theorem C7_delete_guard_witness:
  "(\<not> findRoom_throws no_faults \<and> \<not> deleteRoom_throws no_faults
      \<and> findById hex_cast (rooms server_p2) den_id = Found den
      \<and> findOne_name_e (rooms server_e0) ''lobby'' = Some lobby
      \<and> userId bob_jwt \<in> set (members den)
      \<and> owner lobby \<noteq> userId bob_jwt)
   \<and> delete_room_p hex_cast no_faults bob_jwt den_id server_p2
       = (Json 200 ''Room deleted'',
          server_p2\<lparr> rooms := filter (\<lambda>r. rp_id r \<noteq> rp_id den) (rooms server_p2) \<rparr>)
   \<and> delete_room_e no_faults bob_jwt ''lobby'' server_e0
       = (Json 403 ''You are not the owner of this room'', server_e0)"
proof -
  have h: "\<not> findRoom_throws no_faults \<and> \<not> deleteRoom_throws no_faults
      \<and> findById hex_cast (rooms server_p2) den_id = Found den
      \<and> findOne_name_e (rooms server_e0) ''lobby'' = Some lobby
      \<and> userId bob_jwt \<in> set (members den)
      \<and> owner lobby \<noteq> userId bob_jwt"
    by code_simp
  from h C7_delete_guard [where cast = hex_cast and f = no_faults and st = server_p2
      and roomId = den_id and room = den
      and req_user = bob_jwt and st' = server_e0 and roomName = "''lobby''" and room' = lobby]
  show ?thesis by simp
qed

text \<open>
  C7, counterexample to the claim as stated: alice creates \<open>den\<close>, bob joins it, and bob,
  who did not create it, deletes it.
\<close>

theorem C7_counterexample:
  "rooms server_p1 = [\<lparr> rp_id = den_id, rp_name = ''den'', members = [userId alice_jwt] \<rparr>]
   \<and> userId bob_jwt \<noteq> userId alice_jwt
   \<and> delete_room_p hex_cast no_faults bob_jwt den_id server_p2 = (Json 200 ''Room deleted'', empty_p)"
  by code_simp

section \<open>Unauthenticated connections\<close>

text \<open>
  C8, as the code has it. In both servers of \<^verbatim>\<open>back/server.js\<close> the handshake middleware
  refuses a connection exactly when its token is missing, empty or rejected by
  \<^verbatim>\<open>jwt.verify\<close>; the client gets the middleware's error once, at the handshake, and an
  event sent on a refused connection meets no handler and leaves the server unchanged.
  The minimal socket handler has no authentication: while the process runs, its
  connection listener runs for every connection, logs it and registers its listeners.
\<close>

theorem C8_refused_connection:
  "(case io_use verify token of Inl err \<Rightarrow> True | Inr decoded \<Rightarrow> False)
     = (case token of None \<Rightarrow> True | Some t \<Rightarrow> t = [] \<or> verify t = None)
   \<and> (io_use verify token = Inl err
      \<longrightarrow> handshake verify i token = Refused err
        \<and> on_event_p cast f now (handshake verify i token) ev st = st
        \<and> on_event_e f now (handshake verify i token) ev st' = st')
   \<and> (\<not> exited_m stm
      \<longrightarrow> i \<in> set (listening_m (connection_m i stm))
        \<and> trace_m (connection_m i stm) = trace_m stm @ [ConsoleLog_m ''New client connected:''])"
  by (auto simp: io_use_def handshake_def on_event_p_def on_event_e_def connection_m_def
      split: option.splits)

text \<open>C8, witness: a connection with a forged token, and a first connection to the minimal
  server.\<close>

theorem C8_refused_connection_witness:
  "io_use verify0 None = Inl ''No token provided''
   \<and> io_use verify0 (Some ''forged'') = Inl ''Invalid token''
   \<and> handshake verify0 9 (Some ''forged'') = Refused ''Invalid token''
   \<and> on_event_p hex_cast no_faults 5 (handshake verify0 9 (Some ''forged''))
        (ChatMessage general_id (JString ''hello'')) server_p0 = server_p0
   \<and> on_event_e no_faults 5 (handshake verify0 9 (Some ''forged''))
        (ChatMessage general_id (JString ''hello'')) server_e0 = server_e0
   \<and> \<not> exited_m server_m0
   \<and> 9 \<in> set (listening_m (connection_m 9 server_m0))"
proof -
  have h: "io_use verify0 None = Inl ''No token provided''
   \<and> io_use verify0 (Some ''forged'') = Inl ''Invalid token'' \<and> \<not> exited_m server_m0"
    by code_simp
  from h C8_refused_connection [where verify = verify0 and token = "Some ''forged''"
      and err = "''Invalid token''" and i = 9 and f = no_faults and now = 5 and cast = hex_cast
      and ev = "ChatMessage general_id (JString ''hello'')" and st = server_p0 and st' = server_e0
      and stm = server_m0]
  show ?thesis by blast
qed

text \<open>
  C8, counterexample to the claim as stated, in the minimal socket handler: a connection
  that presents nothing is not refused; the connection listener runs for it, logs it and
  registers its listeners (and then ends the process at the undefined identifier).
\<close>

theorem C8_counterexample:
  "connection_m 9 server_m0
   = \<lparr> messages_m = [], joined_m = [], listening_m = [9], exited_m = True,
       trace_m = [ConsoleLog_m ''New client connected:''] \<rparr>"
  by code_simp

section \<open>The sender of a message in the minimal socket handler\<close>

text \<open>As the file stands, the first connection ends the process: no event reaches a
  listener afterwards.\<close>

lemma receive_m_after_connection:
  "exited_m (connection_m i st)
   \<and> receive_m cast rejects now j ev (connection_m i st) = connection_m i st"
  by (simp add: connection_m_def receive_m_def)




section \<open>Reading the history in the second server\<close>

text \<open>
  C10: in the second server, for a request that passes \<^verbatim>\<open>authMiddleware\<close> and an existing
  room (no awaited call failing), \<^verbatim>\<open>GET /rooms/:roomName/messages\<close> answers 200 with all
  stored messages of that room, populated; the handler's answer does not depend on who
  the requester is.
\<close>

theorem C10_history_unrestricted:
  "((authMiddleware verify authorization :: room_e response + jwt_payload) = Inr req_user
      \<and> \<not> findRoom_throws f \<and> \<not> findMessages_throws f
      \<and> findOne_name_e (rooms st) roomName = Some room
    \<longrightarrow> get_messages_route_e verify f authorization roomName st
        = JsonList 200 (map (populate (users st))
            (filter (\<lambda>m. m_room m = re_id room) (messages st))))
   \<and> get_messages_e f req_user roomName st = get_messages_e f req_user' roomName st"
  by (simp add: get_messages_route_e_def get_messages_e_def)

text \<open>C10, witness: bob, who neither owns \<open>lobby\<close> nor has joined it, reads alice's
  message.\<close>

theorem C10_history_unrestricted_witness:
  "((authMiddleware verify0 (Some ''Bearer tok-bob'') :: room_e response + jwt_payload) = Inr bob_jwt
      \<and> findOne_name_e (rooms server_e2) ''lobby'' = Some lobby
      \<and> owner lobby \<noteq> userId bob_jwt
      \<and> joined server_e2 = [])
   \<and> get_messages_route_e verify0 no_faults (Some ''Bearer tok-bob'') ''lobby'' server_e2
       = JsonList 200 [(\<lparr> m_room = lobby_id, m_user = alice_id, m_text = ''hi'', m_createdAt = 5 \<rparr>,
                        Some (alice_id, ''alice''))]"
proof -
  have h: "(authMiddleware verify0 (Some ''Bearer tok-bob'') :: room_e response + jwt_payload) = Inr bob_jwt
      \<and> findOne_name_e (rooms server_e2) ''lobby'' = Some lobby
      \<and> owner lobby \<noteq> userId bob_jwt
      \<and> joined server_e2 = []
      \<and> \<not> findRoom_throws no_faults \<and> \<not> findMessages_throws no_faults"
    by code_simp
  have v: "map (populate (users server_e2)) (filter (\<lambda>m. m_room m = re_id lobby) (messages server_e2))
       = [(\<lparr> m_room = lobby_id, m_user = alice_id, m_text = ''hi'', m_createdAt = 5 \<rparr>,
                        Some (alice_id, ''alice''))]"
    by code_simp
  from h C10_history_unrestricted [where verify = verify0 and authorization = "Some ''Bearer tok-bob''"
      and req_user = bob_jwt and f = no_faults and st = server_e2 and roomName = "''lobby''"
      and room = lobby]
  show ?thesis unfolding v by simp
qed

section \<open>Order of appends and broadcasts\<close>

text \<open>A handler resumed until it has finished does what the handler does.\<close>

lemma run_p_Finished: "run (step_p cast) n (Finished, st) = (Finished, st)"
  by (induction n) simp_all

lemma run_e_Finished: "run step_e n (Finished_e, st) = (Finished_e, st)"
  by (induction n) simp_all

lemma emit_effects_Nil: "emit_effects [] st = st"
  by (simp add: emit_effects_def)

lemma emit_effects_append: "emit_effects (a @ b) st = emit_effects b (emit_effects a st)"
  by (simp add: emit_effects_def)

lemma users_emit_effects: "users (emit_effects es st) = users st"
  by (simp add: emit_effects_def)

lemma run_p_mentions:
  "2 * length ms \<le> n \<Longrightarrow>
   run (step_p cast) n (next_mention_p f sock room roomId m ms st) =
     (Finished,
      case mention_loop_p f (users st) sock room (m_text m) ms of
        (es, Normal) \<Rightarrow> broadcast roomId sock m (emit_effects es st)
      | (es, Threw) \<Rightarrow> catch_log (emit_effects es st, Threw))"
proof (induction ms arbitrary: n st)
  case Nil
  then show ?case
    by (simp add: next_mention_p_def run_p_Finished emit_effects_Nil)
next
  case (Cons x xs)
  from Cons.prems obtain k where n: "n = Suc (Suc k)" and k: "2 * length xs \<le> k"
    by (cases n; cases "n - 1") auto
  have k': "2 * length xs \<le> Suc k" using k by simp
  show ?case
  proof (cases "findUser_throws f (tl x)")
    case True
    then show ?thesis
      by (simp add: n next_mention_p_def run_p_Finished emit_effects_Nil)
  next
    case False
    show ?thesis
    proof (cases "findOne_email (users st) (tl x)")
      case None
      with False show ?thesis
        by (simp add: n next_mention_p_def [of f sock room roomId m "x # xs"] Cons.IH [OF k'])
    next
      case (Some u)
      show ?thesis
      proof (cases "u_id u \<in> set (members room)")
        case True
        with False Some show ?thesis
          by (simp add: n next_mention_p_def [of f sock room roomId m "x # xs"] Cons.IH [OF k'])
      next
        case nonmember: False
        with False Some show ?thesis
          by (simp add: n next_mention_p_def [of f sock room roomId m "x # xs"] Cons.IH [OF k]
              and_then_def emit_effects_append users_emit_effects split: prod.split completion.split)
      qed
    qed
  qed
qed

lemma run_e_mentions:
  "2 * length ms \<le> n \<Longrightarrow>
   run step_e n (next_mention_e f sock roomName m ms st) =
     (Finished_e,
      case mention_loop_e f (users st) sock roomName (m_text m) ms of
        (es, Normal) \<Rightarrow> broadcast roomName sock m (emit_effects es st)
      | (es, Threw) \<Rightarrow> catch_log (emit_effects es st, Threw))"
proof (induction ms arbitrary: n st)
  case Nil
  then show ?case
    by (simp add: next_mention_e_def run_e_Finished emit_effects_Nil)
next
  case (Cons x xs)
  from Cons.prems obtain k where n: "n = Suc (Suc k)" and k: "2 * length xs \<le> k"
    by (cases n; cases "n - 1") auto
  have k': "2 * length xs \<le> Suc k" using k by simp
  show ?case
  proof (cases "findUser_throws f (tl x)")
    case True
    then show ?thesis
      by (simp add: n next_mention_e_def run_e_Finished emit_effects_Nil)
  next
    case False
    show ?thesis
    proof (cases "findOne_username (users st) (tl x)")
      case None
      with False show ?thesis
        by (simp add: n next_mention_e_def [of f sock roomName m "x # xs"] Cons.IH [OF k'])
    next
      case (Some u)
      with False show ?thesis
        by (simp add: n next_mention_e_def [of f sock roomName m "x # xs"] Cons.IH [OF k]
            and_then_def emit_effects_append users_emit_effects split: prod.split completion.split)
    qed
  qed
qed

lemma users_save_message: "save_message f m st = (st1, c) \<Longrightarrow> users st1 = users st"
  by (auto simp: save_message_def emit_effect_def split: if_splits)

lemma text_new_message:
  "new_message rid uid (JString s) now = Some m \<Longrightarrow> m_text m = s"
  by (auto simp: new_message_def cast_text_def)

lemma run_p_chatMessage_p:
  "2 + 2 * length (case msg of JString s \<Rightarrow> match_email s | _ \<Rightarrow> []) \<le> n \<Longrightarrow>
   run (step_p cast) n (AwaitRoom f now sock roomId msg, st)
     = (Finished, chatMessage_p cast f now sock roomId msg st)"
proof -
  assume "2 + 2 * length (case msg of JString s \<Rightarrow> match_email s | _ \<Rightarrow> []) \<le> n"
  then obtain k where n: "n = Suc (Suc k)"
    and k: "2 * length (case msg of JString s \<Rightarrow> match_email s | _ \<Rightarrow> []) \<le> k"
    by (cases n; cases "n - 1") auto
  have ks: "\<And>s. msg = JString s \<Longrightarrow> 2 * length (match_email s) \<le> k" using k by simp
  show ?thesis
    by (auto simp: n chatMessage_p_def chatMessage_body_p_def run_p_Finished run_p_mentions [OF ks]
        Let_def catch_log_def users_save_message text_new_message
        split: option.split prod.split completion.split found.split js_value.split)
qed

lemma run_e_chatMessage_e:
  "2 + 2 * length (case msg of JString s \<Rightarrow> match_username s | _ \<Rightarrow> []) \<le> n \<Longrightarrow>
   run step_e n (AwaitRoom_e f now sock roomName msg, st)
     = (Finished_e, chatMessage_e f now sock roomName msg st)"
proof -
  assume "2 + 2 * length (case msg of JString s \<Rightarrow> match_username s | _ \<Rightarrow> []) \<le> n"
  then obtain k where n: "n = Suc (Suc k)"
    and k: "2 * length (case msg of JString s \<Rightarrow> match_username s | _ \<Rightarrow> []) \<le> k"
    by (cases n; cases "n - 1") auto
  have ks: "\<And>s. msg = JString s \<Longrightarrow> 2 * length (match_username s) \<le> k" using k by simp
  show ?thesis
    by (auto simp: n chatMessage_e_def chatMessage_body_e_def run_e_Finished run_e_mentions [OF ks]
        Let_def catch_log_def users_save_message text_new_message
        split: option.split prod.split completion.split js_value.split)
qed


















end
